theory Spec2Isabelle
  imports Complex_Main "HOL-Library.Sublist" "HOL-Library.Multiset"
begin

section \<open>JavaScript values\<close>

text \<open>
  The reminder code is dynamically typed: a field of an entity holds whatever was passed in,
  a stored record is whatever \<open>JSON.parse\<close> returned.  Values are therefore modelled by one
  datatype.  \<open>PDT\<close> is an instance of \<open>Temporal.PlainDateTime\<close>, a timezone-naive point of the
  ISO calendar, given as its count of nanoseconds from a fixed origin.  \<open>Obj\<close> is a plain object
  as the list of its own properties in enumeration order; a key is looked up at its first
  entry.  The numbers held in values are integers; functions and symbols are outside the
  model.  The double-precision numbers that the due-date text is computed from are reals,
  rounded as the language rounds them (see the numbers below).  Strings are sequences of code
  units below 256; the lower-case form of a string, which the language computes from the
  string as a whole, is a parameter of the model.
\<close>

datatype jsval =
    Undefined
  | Null
  | Bool bool
  | Num int
  | Str string
  | PDT int
  | Arr "jsval list"
  | Obj "(string \<times> jsval) list"

datatype error =
    Error string
  | TypeError
  | TemporalError
  | SyntaxError
  | StorageError

text \<open>Truthiness, as \<open>if (v)\<close>, \<open>!v\<close> and \<open>v || d\<close> read a value.\<close>

fun truthy :: "jsval \<Rightarrow> bool" where
  "truthy Undefined = False"
| "truthy Null = False"
| "truthy (Bool b) = b"
| "truthy (Num n) = (n \<noteq> 0)"
| "truthy (Str s) = (s \<noteq> [])"
| "truthy (PDT d) = True"
| "truthy (Arr xs) = True"
| "truthy (Obj kvs) = True"

text \<open>\<open>a || b\<close>\<close>

definition or_else :: "jsval \<Rightarrow> jsval \<Rightarrow> jsval" where
  "or_else a b = (if truthy a then a else b)"

text \<open>A parameter with a default: the default replaces \<open>undefined\<close> only.\<close>

definition dflt :: "jsval \<Rightarrow> jsval \<Rightarrow> jsval" where
  "dflt d v = (if v = Undefined then d else v)"

text \<open>\<open>typeof v === 'object'\<close>\<close>

fun typeof_object :: "jsval \<Rightarrow> bool" where
  "typeof_object Null = True"
| "typeof_object (PDT d) = True"
| "typeof_object (Arr xs) = True"
| "typeof_object (Obj kvs) = True"
| "typeof_object v = False"

text \<open>
  \<open>a === b\<close>: primitives are compared by value, objects by identity; two objects of the model
  are never the same object.
\<close>

fun primitive :: "jsval \<Rightarrow> bool" where
  "primitive (PDT d) = False"
| "primitive (Arr xs) = False"
| "primitive (Obj kvs) = False"
| "primitive v = True"

definition strict_eq :: "jsval \<Rightarrow> jsval \<Rightarrow> bool" where
  "strict_eq a b = (primitive a \<and> a = b)"

text \<open>
  \<open>v.k\<close> for the property names the code reads (the nine entity fields and \<open>data\<close>), on a
  value that is not \<open>null\<close> or \<open>undefined\<close>: the own property of a plain object, and
  \<open>undefined\<close> on every other value, none of which has a property of these names.
\<close>

fun prop_of :: "jsval \<Rightarrow> string \<Rightarrow> jsval" where
  "prop_of (Obj kvs) k = (case map_of kvs k of None \<Rightarrow> Undefined | Some v \<Rightarrow> v)"
| "prop_of v k = Undefined"

text \<open>Sequencing of computations that may throw.\<close>

definition then_ok :: "error + 'a \<Rightarrow> ('a \<Rightarrow> error + 'b) \<Rightarrow> error + 'b" where
  "then_ok m f = (case m of Inl e \<Rightarrow> Inl e | Inr x \<Rightarrow> f x)"

definition succeeds :: "error + 'a \<Rightarrow> bool" where
  "succeeds m = (case m of Inl e \<Rightarrow> False | Inr x \<Rightarrow> True)"

fun all_ok :: "(error + 'a) list \<Rightarrow> error + 'a list" where
  "all_ok [] = Inr []"
| "all_ok (m # ms) =
     (case m of Inl e \<Rightarrow> Inl e
      | Inr x \<Rightarrow> (case all_ok ms of Inl e \<Rightarrow> Inl e | Inr xs \<Rightarrow> Inr (x # xs)))"

subsection \<open>Strings\<close>

definition is_space :: "char \<Rightarrow> bool" where
  "is_space c = ((of_char c :: nat) \<in> {9, 10, 11, 12, 13, 32, 160})"

text \<open>\<open>String.prototype.trim\<close>\<close>

definition trim :: "string \<Rightarrow> string" where
  "trim s = rev (dropWhile is_space (rev (dropWhile is_space s)))"

text \<open>\<open>String.prototype.includes\<close>\<close>

primrec includes_str :: "string \<Rightarrow> string \<Rightarrow> bool" where
  "includes_str [] t = (t = [])"
| "includes_str (c # cs) t = (prefix t (c # cs) \<or> includes_str cs t)"

text \<open>The decimal numeral of a non-negative integer, as a template literal prints it.\<close>

fun digits :: "nat \<Rightarrow> string" where
  "digits n =
     (if n < 10 then [''0123456789'' ! n] else digits (n div 10) @ [''0123456789'' ! (n mod 10)])"

definition number_string :: "int \<Rightarrow> string" where
  "number_string i = (if i < 0 then CHR ''-'' # digits (nat (- i)) else digits (nat i))"

subsection \<open>Numbers\<close>

text \<open>
  A number of the language is a double: a real \<open>m * 2^e\<close> with \<open>\<bar>m\<bar> < 2^53\<close> and
  \<open>e \<ge> -1074\<close>.  An arithmetic operation returns the double nearest to the exact result,
  the one with the even significand where two are equally near.  \<open>binade x\<close> is the exponent
  of the power of two at or below \<open>\<bar>x\<bar>\<close>, \<open>ulp x\<close> the distance between neighbouring doubles
  of the magnitude of \<open>x\<close> (it is \<open>2^-1074\<close> for every magnitude below \<open>2^-1022\<close>), and
  \<open>to_double x\<close> the double nearest to \<open>x\<close>.  Overflow to infinity, which starts at
  \<open>2^1024\<close>, is not modelled.
\<close>

definition binade :: "real \<Rightarrow> int" where
  "binade x = \<lfloor>log 2 \<bar>x\<bar>\<rfloor>"

definition ulp :: "real \<Rightarrow> real" where
  "ulp x = 2 powi (max (binade x) (- 1022) - 52)"

definition round_half_even :: "real \<Rightarrow> int" where
  "round_half_even y =
     (let n = \<lfloor>y\<rfloor>
      in if y - of_int n < 1 / 2 then n
         else if 1 / 2 < y - of_int n then n + 1
         else if even n then n else n + 1)"

definition to_double :: "real \<Rightarrow> real" where
  "to_double x = (if x = 0 then 0 else of_int (round_half_even (x / ulp x)) * ulp x)"

text \<open>\<open>a / b\<close> for a divisor that is not zero.\<close>

definition number_div :: "real \<Rightarrow> real \<Rightarrow> real" where
  "number_div a b = to_double (a / b)"

section \<open>The runtime the code calls into\<close>

text \<open>
  The Temporal library, the conversion of other objects to strings, the relational
  comparison of arbitrary values, the lower-case form of a string and the clock are not part
  of the repository.  They are parameters of the model:
  \<^item> \<open>pdt_parse v\<close> is \<open>Temporal.PlainDateTime.from(v)\<close> for a \<open>v\<close> that is not itself a
    \<open>PlainDateTime\<close> (an ISO string, a property bag); \<open>None\<close> when it throws;
  \<^item> \<open>pdt_toString d\<close> is \<open>d.toString()\<close> of a \<open>PlainDateTime\<close>;
  \<^item> \<open>other_toString v\<close> is \<open>v.toString()\<close> of a number, an array or a plain object; \<open>None\<close>
    when it throws;
  \<^item> \<open>other_less a b\<close> is \<open>a < b\<close> for operands that are not two strings or two numbers;
    \<open>None\<close> when it throws;
  \<^item> \<open>toLowerCase s\<close> is \<open>s.toLowerCase()\<close> of a string;
  \<^item> \<open>total_hours ns\<close> is the number that \<open>duration.total('hours')\<close> returns for the
    duration of \<open>ns\<close> nanoseconds between two \<open>PlainDateTime\<close>s;
  \<^item> \<open>now\<close> is \<open>Temporal.Now.plainDateTimeISO()\<close>, \<open>now_iso\<close> is \<open>new Date().toISOString()\<close>.
  The identifiers drawn by \<open>_generateId()\<close> are passed to the functions that draw them.
\<close>

record runtime =
  pdt_parse :: "jsval \<Rightarrow> int option"
  pdt_toString :: "int \<Rightarrow> string"
  other_toString :: "jsval \<Rightarrow> string option"
  other_less :: "jsval \<Rightarrow> jsval \<Rightarrow> bool option"
  toLowerCase :: "string \<Rightarrow> string"
  total_hours :: "int \<Rightarrow> real"
  now :: int
  now_iso :: string

text \<open>\<open>Temporal.PlainDateTime.from(v)\<close>\<close>

definition pdt_from :: "runtime \<Rightarrow> jsval \<Rightarrow> error + int" where
  "pdt_from rt v =
     (case v of
        PDT d \<Rightarrow> Inr d
      | _ \<Rightarrow> (case pdt_parse rt v of None \<Rightarrow> Inl TemporalError | Some d \<Rightarrow> Inr d))"

definition pdt_value :: "runtime \<Rightarrow> jsval \<Rightarrow> error + jsval" where
  "pdt_value rt v = then_ok (pdt_from rt v) (\<lambda>d. Inr (PDT d))"

text \<open>The method call \<open>v.toString()\<close>\<close>

definition method_toString :: "runtime \<Rightarrow> jsval \<Rightarrow> error + string" where
  "method_toString rt v =
     (case v of
        Undefined \<Rightarrow> Inl TypeError
      | Null \<Rightarrow> Inl TypeError
      | Bool b \<Rightarrow> Inr (if b then ''true'' else ''false'')
      | Str s \<Rightarrow> Inr s
      | PDT d \<Rightarrow> Inr (pdt_toString rt d)
      | _ \<Rightarrow> (case other_toString rt v of None \<Rightarrow> Inl TypeError | Some s \<Rightarrow> Inr s))"

section \<open>The Reminder entity\<close>

record reminder =
  id' :: jsval
  title :: jsval
  description :: jsval
  dueDate :: jsval
  priority :: jsval
  category :: jsval
  isCompleted :: jsval
  createdAt :: jsval
  completedAt :: jsval

definition validPriorities :: "jsval list" where
  "validPriorities = [Str ''low'', Str ''medium'', Str ''high'']"

text \<open>
  The test \<open>!title || title.trim() === ''\<close> and what it leads to: the error thrown, if any.
  A truthy value that is not a string has no \<open>trim\<close> method, and the call throws.
\<close>

definition check_title :: "jsval \<Rightarrow> error option" where
  "check_title t =
     (if \<not> truthy t then Some (Error ''Title is required'')
      else case t of
             Str s \<Rightarrow> if trim s = [] then Some (Error ''Title is required'') else None
           | _ \<Rightarrow> Some TypeError)"

definition check_priority :: "jsval \<Rightarrow> error option" where
  "check_priority p =
     (if p \<in> set validPriorities then None else Some (Error ''Invalid priority level''))"

text \<open>
  \<open>new Reminder(title, description = '', dueDate = null, priority = 'medium',
  category = 'general')\<close>, with the identifier \<open>nid\<close> that \<open>_generateId()\<close> draws.
\<close>

definition Reminder_new ::
  "runtime \<Rightarrow> string \<Rightarrow> jsval \<Rightarrow> jsval \<Rightarrow> jsval \<Rightarrow> jsval \<Rightarrow> jsval \<Rightarrow> error + reminder" where
  "Reminder_new rt nid title0 description0 dueDate0 priority0 category0 =
     (let description1 = dflt (Str []) description0;
          dueDate1 = dflt Null dueDate0;
          priority1 = dflt (Str ''medium'') priority0;
          category1 = dflt (Str ''general'') category0
      in case check_title title0 of
           Some e \<Rightarrow> Inl e
         | None \<Rightarrow>
             (case check_priority priority1 of
                Some e \<Rightarrow> Inl e
              | None \<Rightarrow>
                  Inr \<lparr> id' = Str nid, title = title0, description = description1,
                        dueDate = dueDate1, priority = priority1, category = category1,
                        isCompleted = Bool False, createdAt = PDT (now rt),
                        completedAt = Null \<rparr>))"

text \<open>\<open>markComplete(completed = null)\<close>\<close>

definition markComplete :: "runtime \<Rightarrow> jsval \<Rightarrow> reminder \<Rightarrow> reminder" where
  "markComplete rt completed0 r =
     (let completed = dflt Null completed0;
          c = (if completed = Null then Bool (\<not> truthy (isCompleted r)) else completed)
      in r\<lparr> isCompleted := c,
            completedAt := (if truthy c then PDT (now rt) else Null) \<rparr>)"

text \<open>\<open>toJSON()\<close>\<close>

definition toJSON :: "runtime \<Rightarrow> reminder \<Rightarrow> error + jsval" where
  "toJSON rt r =
     then_ok (if truthy (dueDate r) then map_sum (\<lambda>e. e) Str (method_toString rt (dueDate r))
              else Inr Null) (\<lambda>due.
     then_ok (map_sum (\<lambda>e. e) Str (method_toString rt (createdAt r))) (\<lambda>created.
     then_ok (if truthy (completedAt r)
              then map_sum (\<lambda>e. e) Str (method_toString rt (completedAt r))
              else Inr Null) (\<lambda>completed.
     Inr (Obj [(''id'', id' r), (''title'', title r), (''description'', description r),
               (''dueDate'', due), (''priority'', priority r), (''category'', category r),
               (''isCompleted'', isCompleted r), (''createdAt'', created),
               (''completedAt'', completed)]))))"

text \<open>
  \<open>Reminder.fromJSON(json)\<close>.  The constructor runs first, with \<open>null\<close> for the due date; the
  identifier and creation time it sets are then overwritten from the record.
\<close>

definition fromJSON :: "runtime \<Rightarrow> string \<Rightarrow> jsval \<Rightarrow> error + reminder" where
  "fromJSON rt nid json =
     (if json = Undefined \<or> json = Null then Inl TypeError
      else
        then_ok (Reminder_new rt nid (prop_of json ''title'') (prop_of json ''description'') Null
                   (prop_of json ''priority'') (prop_of json ''category'')) (\<lambda>r.
        then_ok (if truthy (prop_of json ''dueDate'') then pdt_value rt (prop_of json ''dueDate'')
                 else Inr Null) (\<lambda>due.
        then_ok (pdt_value rt (prop_of json ''createdAt'')) (\<lambda>created.
        then_ok (if truthy (prop_of json ''completedAt'')
                 then pdt_value rt (prop_of json ''completedAt'') else Inr Null) (\<lambda>completed.
        Inr (r\<lparr> id' := prop_of json ''id'', dueDate := due,
                 isCompleted := prop_of json ''isCompleted'', createdAt := created,
                 completedAt := completed \<rparr>))))))"

text \<open>
  \<open>update(properties)\<close>.  The argument is the list \<open>Object.entries(properties)\<close>.  The entity
  is mutated in place, so a call that throws still leaves its earlier assignments behind:
  the result is the error thrown, if any, and the entity as it is afterwards.
\<close>

definition validProperties :: "string list" where
  "validProperties = [''title'', ''description'', ''dueDate'', ''priority'', ''category'']"

definition assign :: "string \<Rightarrow> jsval \<Rightarrow> reminder \<Rightarrow> reminder" where
  "assign k v r =
     (if k = ''title'' then r\<lparr> title := v \<rparr>
      else if k = ''description'' then r\<lparr> description := v \<rparr>
      else if k = ''dueDate'' then r\<lparr> dueDate := v \<rparr>
      else if k = ''priority'' then r\<lparr> priority := v \<rparr>
      else if k = ''category'' then r\<lparr> category := v \<rparr>
      else r)"

text \<open>The check made on one entry before it is assigned: the error it throws, if any.\<close>

definition entry_error :: "string \<Rightarrow> jsval \<Rightarrow> error option" where
  "entry_error k v =
     (if k \<in> set validProperties then
        (if k = ''title'' \<and> check_title v \<noteq> None then check_title v
         else if k = ''priority'' \<and> check_priority v \<noteq> None then check_priority v
         else None)
      else None)"

fun update :: "(string \<times> jsval) list \<Rightarrow> reminder \<Rightarrow> error option \<times> reminder" where
  "update [] r = (None, r)"
| "update ((k, v) # ps) r =
     (if k \<in> set validProperties then
        (case entry_error k v of
           Some e \<Rightarrow> (Some e, r)
         | None \<Rightarrow> update ps (assign k v r))
      else update ps r)"

text \<open>\<open>clone()\<close>, with the identifier the constructor draws.\<close>

definition clone :: "runtime \<Rightarrow> string \<Rightarrow> reminder \<Rightarrow> error + reminder" where
  "clone rt nid r =
     then_ok (Reminder_new rt nid (title r) (description r) (dueDate r) (priority r) (category r))
       (\<lambda>cloned. Inr (cloned\<lparr> isCompleted := isCompleted r, createdAt := createdAt r,
                               completedAt := completedAt r \<rparr>))"

text \<open>\<open>timeUntilDue()\<close>: the duration \<open>dueDate.since(now)\<close> in nanoseconds, or \<open>null\<close>.\<close>

definition timeUntilDue :: "runtime \<Rightarrow> reminder \<Rightarrow> error + int option" where
  "timeUntilDue rt r =
     (if \<not> truthy (dueDate r) then Inr None
      else case dueDate r of
             PDT d \<Rightarrow> Inr (Some (d - now rt))
           | _ \<Rightarrow> Inl TypeError)"

text \<open>
  \<open>timeUntilDueFormatted()\<close>.  \<open>totalHours\<close> is the number the library returns,
  \<open>totalHours / 24\<close> a division of the language, and \<open>Math.floor\<close> and \<open>Math.abs\<close> are exact.
\<close>

definition timeUntilDueFormatted :: "runtime \<Rightarrow> reminder \<Rightarrow> error + string" where
  "timeUntilDueFormatted rt r =
     then_ok (timeUntilDue rt r) (\<lambda>duration.
       case duration of
         None \<Rightarrow> Inr ''No due date''
       | Some ns \<Rightarrow>
           (let totalHours = total_hours rt ns;
                totalDays = \<lfloor>number_div totalHours 24\<rfloor>
            in if sgn ns < 0 then
                 (if totalDays < - 1 then Inr (number_string \<bar>totalDays\<bar> @ '' days overdue'')
                  else Inr (number_string \<bar>\<lfloor>totalHours\<rfloor>\<bar> @ '' hours overdue''))
               else if totalDays \<ge> 1 then Inr (number_string totalDays @ '' days remaining'')
               else Inr (number_string \<lfloor>totalHours\<rfloor> @ '' hours remaining'')))"

section \<open>The key-value store\<close>

text \<open>
  \<open>localStorage\<close> maps keys to strings.  A stored string is either the JSON text of a value
  (\<open>JsonText v\<close>, what \<open>JSON.stringify\<close> returns and \<open>JSON.parse\<close> reads back as \<open>v\<close>) or
  a string that is not JSON (\<open>RawText s\<close>, on which \<open>JSON.parse\<close> throws).  \<open>present\<close> says
  whether the global \<open>localStorage\<close> exists at all, and \<open>accepts k v\<close> whether
  \<open>setItem(k, v)\<close> stores the value; where it does not, the call throws and stores nothing.
\<close>

datatype stored = JsonText jsval | RawText string

record localStorage =
  present :: bool
  items :: "string \<Rightarrow> stored option"
  accepts :: "string \<Rightarrow> stored \<Rightarrow> bool"

definition setItem :: "localStorage \<Rightarrow> string \<Rightarrow> stored \<Rightarrow> error + localStorage" where
  "setItem ls k v =
     (if present ls \<and> accepts ls k v then Inr (ls\<lparr> items := (items ls)(k \<mapsto> v) \<rparr>)
      else Inl StorageError)"

definition getItem :: "localStorage \<Rightarrow> string \<Rightarrow> error + stored option" where
  "getItem ls k = (if present ls then Inr (items ls k) else Inl StorageError)"

definition removeItem :: "localStorage \<Rightarrow> string \<Rightarrow> localStorage" where
  "removeItem ls k = ls\<lparr> items := (items ls)(k := None) \<rparr>"

definition JSON_parse :: "stored \<Rightarrow> error + jsval" where
  "JSON_parse t = (case t of JsonText v \<Rightarrow> Inr v | RawText s \<Rightarrow> Inl SyntaxError)"

text \<open>
  The value that the text \<open>JSON.stringify(v)\<close> denotes: a \<open>PlainDateTime\<close> is written through
  its \<open>toJSON\<close> method as its string, a property whose value is \<open>undefined\<close> is left out, and
  \<open>undefined\<close> in an array is written \<open>null\<close>.
\<close>

fun to_json :: "runtime \<Rightarrow> jsval \<Rightarrow> jsval" where
  "to_json rt (PDT d) = Str (pdt_toString rt d)"
| "to_json rt (Arr xs) = Arr (map (\<lambda>x. if x = Undefined then Null else to_json rt x) xs)"
| "to_json rt (Obj kvs) =
     Obj (map (\<lambda>kv. (fst kv, to_json rt (snd kv))) (filter (\<lambda>kv. snd kv \<noteq> Undefined) kvs))"
| "to_json rt v = v"

definition JSON_stringify :: "runtime \<Rightarrow> jsval \<Rightarrow> stored" where
  "JSON_stringify rt v = JsonText (to_json rt v)"

section \<open>The collection manager\<close>

text \<open>
  The manager holds a storage key and the sequence of its entities.  Entities are held by
  value: the model does not follow an entity object that occurs twice in the sequence or
  that a caller changes through a reference it kept.  No statement below depends on either.
\<close>

record manager =
  storageKey :: string
  reminders :: "reminder list"

text \<open>An argument that is either an instance of \<open>Reminder\<close> or another value.\<close>

datatype item = Inst reminder | Val jsval

text \<open>\<open>save()\<close>: any error is caught and logged, and the store is then as it was.\<close>

definition ReminderManager_save :: "runtime \<Rightarrow> manager \<Rightarrow> localStorage \<Rightarrow> localStorage" where
  "ReminderManager_save rt m ls =
     (case all_ok (map (toJSON rt) (reminders m)) of
        Inl e \<Rightarrow> ls
      | Inr recs \<Rightarrow>
          (case setItem ls (storageKey m) (JSON_stringify rt (Arr recs)) of
             Inl e \<Rightarrow> ls
           | Inr ls' \<Rightarrow> ls'))"

text \<open>
  \<open>parsed.map(item => Reminder.fromJSON(item))\<close>, as \<open>load\<close> and \<open>import\<close> run it: a
  \<open>TypeError\<close> unless \<open>parsed\<close> is an array.  \<open>ids i\<close> is the identifier drawn for element \<open>i\<close>.
\<close>

fun fromJSON_each :: "runtime \<Rightarrow> (nat \<Rightarrow> string) \<Rightarrow> jsval list \<Rightarrow> error + reminder list" where
  "fromJSON_each rt ids [] = Inr []"
| "fromJSON_each rt ids (x # xs) =
     (case fromJSON rt (ids 0) x of
        Inl e \<Rightarrow> Inl e
      | Inr r \<Rightarrow>
          (case fromJSON_each rt (\<lambda>i. ids (Suc i)) xs of
             Inl e \<Rightarrow> Inl e
           | Inr rs \<Rightarrow> Inr (r # rs)))"

definition decode_array :: "runtime \<Rightarrow> (nat \<Rightarrow> string) \<Rightarrow> stored \<Rightarrow> error + reminder list" where
  "decode_array rt ids t =
     then_ok (JSON_parse t) (\<lambda>parsed.
       case parsed of
         Arr xs \<Rightarrow> fromJSON_each rt ids xs
       | _ \<Rightarrow> Inl TypeError)"

text \<open>\<open>load()\<close>\<close>

definition ReminderManager_load ::
  "runtime \<Rightarrow> (nat \<Rightarrow> string) \<Rightarrow> manager \<Rightarrow> localStorage \<Rightarrow> manager" where
  "ReminderManager_load rt ids m ls =
     (case getItem ls (storageKey m) of
        Inl e \<Rightarrow> m\<lparr> reminders := [] \<rparr>
      | Inr None \<Rightarrow> m\<lparr> reminders := [] \<rparr>
      | Inr (Some d) \<Rightarrow>
          if d = RawText [] then m\<lparr> reminders := [] \<rparr>
          else (case decode_array rt ids d of
                  Inl e \<Rightarrow> m\<lparr> reminders := [] \<rparr>
                | Inr rs \<Rightarrow> m\<lparr> reminders := rs \<rparr>))"

text \<open>\<open>new ReminderManager(storageKey)\<close>\<close>

definition ReminderManager_new ::
  "runtime \<Rightarrow> (nat \<Rightarrow> string) \<Rightarrow> string \<Rightarrow> localStorage \<Rightarrow> manager" where
  "ReminderManager_new rt ids key ls =
     ReminderManager_load rt ids \<lparr> storageKey = key, reminders = [] \<rparr> ls"

text \<open>
  \<open>add(reminderData)\<close>: the entity added or the error thrown, the manager and the store
  afterwards.
\<close>

definition entity_of :: "runtime \<Rightarrow> string \<Rightarrow> item \<Rightarrow> error + reminder" where
  "entity_of rt nid x =
     (case x of
        Inst r \<Rightarrow> Inr r
      | Val v \<Rightarrow>
          if truthy v \<and> typeof_object v \<and> truthy (prop_of v ''title'')
          then Reminder_new rt nid (prop_of v ''title'') (prop_of v ''description'')
                 (prop_of v ''dueDate'') (prop_of v ''priority'') (prop_of v ''category'')
          else Inl (Error ''Invalid reminder''))"

definition ReminderManager_add ::
  "runtime \<Rightarrow> string \<Rightarrow> item \<Rightarrow> manager \<Rightarrow> localStorage
     \<Rightarrow> (error + reminder) \<times> manager \<times> localStorage" where
  "ReminderManager_add rt nid x m ls =
     (case entity_of rt nid x of
        Inl e \<Rightarrow> (Inl e, m, ls)
      | Inr r \<Rightarrow>
          (let m' = m\<lparr> reminders := reminders m @ [r] \<rparr>
           in (Inr r, m', ReminderManager_save rt m' ls)))"

text \<open>\<open>addMultiple(reminders)\<close>: the first error ends the loop; what was added stays.\<close>

fun ReminderManager_addMultiple ::
  "runtime \<Rightarrow> (nat \<Rightarrow> string) \<Rightarrow> item list \<Rightarrow> manager \<Rightarrow> localStorage
     \<Rightarrow> (error + reminder list) \<times> manager \<times> localStorage" where
  "ReminderManager_addMultiple rt ids [] m ls = (Inr [], m, ls)"
| "ReminderManager_addMultiple rt ids (x # xs) m ls =
     (case ReminderManager_add rt (ids 0) x m ls of
        (Inl e, m', ls') \<Rightarrow> (Inl e, m', ls')
      | (Inr r, m', ls') \<Rightarrow>
          (case ReminderManager_addMultiple rt (\<lambda>i. ids (Suc i)) xs m' ls' of
             (Inl e, m'', ls'') \<Rightarrow> (Inl e, m'', ls'')
           | (Inr rs, m'', ls'') \<Rightarrow> (Inr (r # rs), m'', ls'')))"

text \<open>\<open>findIndex(r => r.id === id)\<close>\<close>

fun findIndex :: "('a \<Rightarrow> bool) \<Rightarrow> 'a list \<Rightarrow> nat option" where
  "findIndex P [] = None"
| "findIndex P (x # xs) = (if P x then Some 0 else map_option Suc (findIndex P xs))"

text \<open>\<open>remove(id)\<close>: the entity removed, or \<open>null\<close>.\<close>

definition ReminderManager_remove ::
  "runtime \<Rightarrow> jsval \<Rightarrow> manager \<Rightarrow> localStorage \<Rightarrow> reminder option \<times> manager \<times> localStorage" where
  "ReminderManager_remove rt i m ls =
     (case findIndex (\<lambda>r. strict_eq (id' r) i) (reminders m) of
        None \<Rightarrow> (None, m, ls)
      | Some n \<Rightarrow>
          (let m' = m\<lparr> reminders := take n (reminders m) @ drop (Suc n) (reminders m) \<rparr>
           in (Some (reminders m ! n), m', ReminderManager_save rt m' ls)))"

text \<open>\<open>removeCompleted()\<close>\<close>

definition ReminderManager_removeCompleted ::
  "runtime \<Rightarrow> manager \<Rightarrow> localStorage \<Rightarrow> nat \<times> manager \<times> localStorage" where
  "ReminderManager_removeCompleted rt m ls =
     (let completedReminders = filter (\<lambda>r. truthy (isCompleted r)) (reminders m);
          m' = m\<lparr> reminders := filter (\<lambda>r. \<not> truthy (isCompleted r)) (reminders m) \<rparr>
      in (length completedReminders, m', ReminderManager_save rt m' ls))"

text \<open>\<open>clear()\<close>\<close>

definition ReminderManager_clear ::
  "runtime \<Rightarrow> manager \<Rightarrow> localStorage \<Rightarrow> manager \<times> localStorage" where
  "ReminderManager_clear rt m ls =
     (let m' = m\<lparr> reminders := [] \<rparr> in (m', ReminderManager_save rt m' ls))"

text \<open>
  \<open>update(id, updates)\<close>: \<open>null\<close> when no entity has the identifier.  The entity found is
  updated in place; when its \<open>update\<close> throws, the error goes to the caller before \<open>save\<close>
  runs.
\<close>

definition ReminderManager_update ::
  "runtime \<Rightarrow> jsval \<Rightarrow> (string \<times> jsval) list \<Rightarrow> manager \<Rightarrow> localStorage
     \<Rightarrow> (error + reminder option) \<times> manager \<times> localStorage" where
  "ReminderManager_update rt i updates m ls =
     (case findIndex (\<lambda>r. strict_eq (id' r) i) (reminders m) of
        None \<Rightarrow> (Inr None, m, ls)
      | Some n \<Rightarrow>
          (let res = update updates (reminders m ! n);
               m' = m\<lparr> reminders := (reminders m)[n := snd res] \<rparr>
           in case fst res of
                Some e \<Rightarrow> (Inl e, m', ls)
              | None \<Rightarrow> (Inr (Some (snd res)), m', ReminderManager_save rt m' ls)))"

text \<open>\<open>import(jsonData)\<close>: the number of entities imported; \<open>0\<close> after any error.\<close>

definition ReminderManager_import ::
  "runtime \<Rightarrow> (nat \<Rightarrow> string) \<Rightarrow> stored \<Rightarrow> manager \<Rightarrow> localStorage
     \<Rightarrow> nat \<times> manager \<times> localStorage" where
  "ReminderManager_import rt ids jsonData m ls =
     (case decode_array rt ids jsonData of
        Inl e \<Rightarrow> (0, m, ls)
      | Inr importedReminders \<Rightarrow>
          (let m' = m\<lparr> reminders := reminders m @ importedReminders \<rparr>
           in (length importedReminders, m', ReminderManager_save rt m' ls)))"

text \<open>
  \<open>search(query)\<close>.  The callback of \<open>filter\<close> throws where a title, or a description that
  is looked at, is not a string.
\<close>

definition lowered :: "runtime \<Rightarrow> jsval \<Rightarrow> error + string" where
  "lowered rt v = (case v of Str s \<Rightarrow> Inr (toLowerCase rt s) | _ \<Rightarrow> Inl TypeError)"

definition matches :: "runtime \<Rightarrow> string \<Rightarrow> reminder \<Rightarrow> error + bool" where
  "matches rt searchTerm r =
     then_ok (lowered rt (title r)) (\<lambda>t.
       if includes_str t searchTerm then Inr True
       else then_ok (lowered rt (description r)) (\<lambda>d. Inr (includes_str d searchTerm)))"

fun filter_ok :: "('a \<Rightarrow> error + bool) \<Rightarrow> 'a list \<Rightarrow> error + 'a list" where
  "filter_ok p [] = Inr []"
| "filter_ok p (x # xs) =
     (case p x of
        Inl e \<Rightarrow> Inl e
      | Inr b \<Rightarrow>
          (case filter_ok p xs of
             Inl e \<Rightarrow> Inl e
           | Inr ys \<Rightarrow> Inr (if b then x # ys else ys)))"

definition ReminderManager_search ::
  "runtime \<Rightarrow> string \<Rightarrow> manager \<Rightarrow> error + reminder list" where
  "ReminderManager_search rt query m =
     (if query = [] then Inr []
      else filter_ok (matches rt (toLowerCase rt query)) (reminders m))"

text \<open>
  \<open>sortBy(field, order = 'asc')\<close>.  The comparator first.  \<open>a < b\<close> on two strings compares
  code units, on two numbers the numbers; with \<open>undefined\<close> and a primitive it is false.
\<close>

fun str_less :: "string \<Rightarrow> string \<Rightarrow> bool" where
  "str_less [] [] = False"
| "str_less [] (d # t) = True"
| "str_less (c # s) [] = False"
| "str_less (c # s) (d # t) =
     ((of_char c :: nat) < of_char d \<or> (c = d \<and> str_less s t))"

definition js_less :: "runtime \<Rightarrow> jsval \<Rightarrow> jsval \<Rightarrow> error + bool" where
  "js_less rt a b =
     (case (a, b) of
        (Str s, Str t) \<Rightarrow> Inr (str_less s t)
      | (Num x, Num y) \<Rightarrow> Inr (x < y)
      | _ \<Rightarrow>
          if (a = Undefined \<and> primitive b) \<or> (primitive a \<and> b = Undefined) then Inr False
          else (case other_less rt a b of None \<Rightarrow> Inl TypeError | Some r \<Rightarrow> Inr r))"

text \<open>The three lines that end the comparator.\<close>

definition ordered :: "runtime \<Rightarrow> string \<Rightarrow> jsval \<Rightarrow> jsval \<Rightarrow> error + int" where
  "ordered rt order aValue bValue =
     then_ok (js_less rt aValue bValue) (\<lambda>lt.
       if lt then Inr (if order = ''asc'' then - 1 else 1)
       else then_ok (js_less rt bValue aValue) (\<lambda>gt.
              if gt then Inr (if order = ''asc'' then 1 else - 1) else Inr 0))"

text \<open>\<open>Temporal.PlainDateTime.compare(a, b)\<close>\<close>

definition pdt_compare :: "runtime \<Rightarrow> jsval \<Rightarrow> jsval \<Rightarrow> error + int" where
  "pdt_compare rt a b =
     then_ok (pdt_from rt a) (\<lambda>x. then_ok (pdt_from rt b) (\<lambda>y. Inr (sgn (x - y))))"

text \<open>
  \<open>priorityOrder[p]\<close>: the value is turned into a property key and looked up;
  \<open>None\<close> is \<open>undefined\<close>.
\<close>

definition to_key :: "runtime \<Rightarrow> jsval \<Rightarrow> error + string" where
  "to_key rt v =
     (case v of
        Undefined \<Rightarrow> Inr ''undefined''
      | Null \<Rightarrow> Inr ''null''
      | _ \<Rightarrow> method_toString rt v)"

definition priorityOrder :: "runtime \<Rightarrow> jsval \<Rightarrow> error + int option" where
  "priorityOrder rt p =
     then_ok (to_key rt p) (\<lambda>k. Inr (map_of [(''high'', 3), (''medium'', 2), (''low'', 1)] k))"

text \<open>\<open>a[field]\<close> for the name of a data field; \<open>undefined\<close> for another name.\<close>

definition field_of :: "reminder \<Rightarrow> string \<Rightarrow> jsval" where
  "field_of r f =
     (if f = ''id'' then id' r
      else if f = ''title'' then title r
      else if f = ''description'' then description r
      else if f = ''dueDate'' then dueDate r
      else if f = ''priority'' then priority r
      else if f = ''category'' then category r
      else if f = ''isCompleted'' then isCompleted r
      else if f = ''createdAt'' then createdAt r
      else if f = ''completedAt'' then completedAt r
      else Undefined)"

text \<open>
  The comparator.  In the priority case \<open>bValue - aValue\<close> is \<open>NaN\<close> when a rank is
  \<open>undefined\<close>, and \<open>sort\<close> reads \<open>NaN\<close> as \<open>0\<close>.
\<close>

definition compare_by :: "runtime \<Rightarrow> string \<Rightarrow> string \<Rightarrow> reminder \<Rightarrow> reminder \<Rightarrow> error + int" where
  "compare_by rt fld order a b =
     (if fld = ''title'' then
        then_ok (lowered rt (title a)) (\<lambda>aValue.
        then_ok (lowered rt (title b)) (\<lambda>bValue. ordered rt order (Str aValue) (Str bValue)))
      else if fld = ''dueDate'' then
        (if \<not> truthy (dueDate a) \<and> \<not> truthy (dueDate b) then Inr 0
         else if \<not> truthy (dueDate a) then Inr 1
         else if \<not> truthy (dueDate b) then Inr (- 1)
         else pdt_compare rt (dueDate a) (dueDate b))
      else if fld = ''priority'' then
        then_ok (priorityOrder rt (priority a)) (\<lambda>aValue.
        then_ok (priorityOrder rt (priority b)) (\<lambda>bValue.
          case (aValue, bValue) of
            (Some x, Some y) \<Rightarrow> Inr (y - x)
          | _ \<Rightarrow> Inr 0))
      else if fld = ''createdAt'' then pdt_compare rt (createdAt a) (createdAt b)
      else ordered rt order (field_of a fld) (field_of b fld))"

text \<open>
  \<open>Array.prototype.sort(compare)\<close>.  The language fixes its result for a consistent
  comparator only: the stable sorted arrangement.  It is modelled by a stable insertion
  sort, which ends with the first error of the comparator.
\<close>

fun insert_sorted :: "('a \<Rightarrow> 'a \<Rightarrow> error + int) \<Rightarrow> 'a \<Rightarrow> 'a list \<Rightarrow> error + 'a list" where
  "insert_sorted c x [] = Inr [x]"
| "insert_sorted c x (y # ys) =
     (case c x y of
        Inl e \<Rightarrow> Inl e
      | Inr n \<Rightarrow>
          if n \<le> 0 then Inr (x # y # ys)
          else (case insert_sorted c x ys of Inl e \<Rightarrow> Inl e | Inr zs \<Rightarrow> Inr (y # zs)))"

fun array_sort :: "('a \<Rightarrow> 'a \<Rightarrow> error + int) \<Rightarrow> 'a list \<Rightarrow> error + 'a list" where
  "array_sort c [] = Inr []"
| "array_sort c (x # xs) =
     (case array_sort c xs of Inl e \<Rightarrow> Inl e | Inr ys \<Rightarrow> insert_sorted c x ys)"

definition ReminderManager_sortBy ::
  "runtime \<Rightarrow> string \<Rightarrow> string \<Rightarrow> manager \<Rightarrow> error + reminder list" where
  "ReminderManager_sortBy rt fld order m = array_sort (compare_by rt fld order) (reminders m)"

section \<open>The storage layer\<close>

record storageLayer =
  sl_storageKey :: string
  version :: int

definition StorageLayer_new :: "string \<Rightarrow> storageLayer" where
  "StorageLayer_new key = \<lparr> sl_storageKey = key, version = 1 \<rparr>"

text \<open>
  \<open>isStorageAvailable()\<close> writes a probe and deletes it again: whatever was stored under the
  probe's key is gone afterwards.
\<close>

definition probe_key :: string where
  "probe_key = ''__localStorage_test__''"

definition isStorageAvailable :: "localStorage \<Rightarrow> bool \<times> localStorage" where
  "isStorageAvailable ls =
     (if \<not> present ls then (False, ls)
      else case setItem ls probe_key (RawText ''test'') of
             Inl e \<Rightarrow> (False, ls)
           | Inr ls' \<Rightarrow> (True, removeItem ls' probe_key))"

text \<open>The validation loop of \<open>save\<close>: the error thrown for one element, if any.\<close>

definition validate_item :: "item \<Rightarrow> error option" where
  "validate_item x =
     (case x of
        Inst r \<Rightarrow> None
      | Val v \<Rightarrow>
          if \<not> truthy v \<or> \<not> typeof_object v \<or> \<not> truthy (prop_of v ''title'')
          then Some (Error ''Invalid reminder data'')
          else (case prop_of v ''title'' of
                  Str s \<Rightarrow> if trim s = [] then Some (Error ''Invalid reminder data'') else None
                | _ \<Rightarrow> Some TypeError))"

fun first_invalid :: "item list \<Rightarrow> error option" where
  "first_invalid [] = None"
| "first_invalid (x # xs) =
     (case validate_item x of Some e \<Rightarrow> Some e | None \<Rightarrow> first_invalid xs)"

text \<open>
  \<open>r.toJSON()\<close> on an element of the list: the method of an entity, the string of a
  \<open>PlainDateTime\<close>, and a \<open>TypeError\<close> on a value that has no such method.
\<close>

definition item_toJSON :: "runtime \<Rightarrow> item \<Rightarrow> error + jsval" where
  "item_toJSON rt x =
     (case x of
        Inst r \<Rightarrow> toJSON rt r
      | Val v \<Rightarrow> (case v of PDT d \<Rightarrow> Inr (Str (pdt_toString rt d)) | _ \<Rightarrow> Inl TypeError))"

text \<open>
  \<open>save(reminders)\<close> for an argument that is an array: the boolean returned and the store
  afterwards.  Every error thrown inside is caught, and \<open>false\<close> is returned.
\<close>

definition StorageLayer_save ::
  "runtime \<Rightarrow> storageLayer \<Rightarrow> item list \<Rightarrow> localStorage \<Rightarrow> bool \<times> localStorage" where
  "StorageLayer_save rt sl xs ls =
     (case isStorageAvailable ls of
        (False, ls1) \<Rightarrow> (False, ls1)
      | (True, ls1) \<Rightarrow>
          (case first_invalid xs of
             Some e \<Rightarrow> (False, ls1)
           | None \<Rightarrow>
               (case all_ok (map (item_toJSON rt) xs) of
                  Inl e \<Rightarrow> (False, ls1)
                | Inr recs \<Rightarrow>
                    (case setItem ls1 (sl_storageKey sl)
                            (JSON_stringify rt
                               (Obj [(''version'', Num (version sl)), (''data'', Arr recs)])) of
                       Inl e \<Rightarrow> (False, ls1)
                     | Inr ls2 \<Rightarrow> (True, ls2)))))"

text \<open>
  \<open>_normalizeReminderData(item)\<close>, with the identifier drawn for a record that has none:
  first the object it returns, then the call, which throws on \<open>null\<close> and \<open>undefined\<close>.
\<close>

definition normalized_priority :: "jsval \<Rightarrow> jsval" where
  "normalized_priority priority0 =
     (let priority1 = (if priority0 = Str ''normal'' then Str ''medium'' else priority0)
      in if priority1 \<in> set validPriorities then priority1 else Str ''medium'')"

definition normalized_record :: "runtime \<Rightarrow> string \<Rightarrow> jsval \<Rightarrow> jsval" where
  "normalized_record rt nid x =
     Obj [(''id'', or_else (prop_of x ''id'') (Str nid)),
          (''title'', or_else (prop_of x ''title'') (Str [])),
          (''description'', or_else (prop_of x ''description'') (Str [])),
          (''dueDate'', or_else (prop_of x ''dueDate'') Null),
          (''priority'', normalized_priority (prop_of x ''priority'')),
          (''category'', or_else (prop_of x ''category'') (Str ''general'')),
          (''isCompleted'', Bool (truthy (prop_of x ''isCompleted''))),
          (''createdAt'', or_else (prop_of x ''createdAt'') (Str (now_iso rt))),
          (''completedAt'', or_else (prop_of x ''completedAt'') Null)]"

definition normalizeReminderData :: "runtime \<Rightarrow> string \<Rightarrow> jsval \<Rightarrow> error + jsval" where
  "normalizeReminderData rt nid x =
     (if x = Undefined \<or> x = Null then Inl TypeError else Inr (normalized_record rt nid x))"

text \<open>
  The loop of \<open>_migrateFromLegacy\<close>, which is also the loop of \<open>load\<close> over the data of an
  envelope: normalise, deserialise, and skip the element when either throws.
\<close>

definition revive :: "runtime \<Rightarrow> string \<Rightarrow> jsval \<Rightarrow> error + reminder" where
  "revive rt nid x = then_ok (normalizeReminderData rt nid x) (fromJSON rt nid)"

fun migrateFromLegacy :: "runtime \<Rightarrow> (nat \<Rightarrow> string) \<Rightarrow> jsval list \<Rightarrow> reminder list" where
  "migrateFromLegacy rt ids [] = []"
| "migrateFromLegacy rt ids (x # xs) =
     (case revive rt (ids 0) x of
        Inl e \<Rightarrow> migrateFromLegacy rt (\<lambda>i. ids (Suc i)) xs
      | Inr r \<Rightarrow> r # migrateFromLegacy rt (\<lambda>i. ids (Suc i)) xs)"

text \<open>
  What \<open>for (const item of data)\<close> runs over: the elements of an array, the characters of a
  string; another value is not iterable.
\<close>

definition iterate :: "jsval \<Rightarrow> error + jsval list" where
  "iterate v =
     (case v of
        Arr xs \<Rightarrow> Inr xs
      | Str s \<Rightarrow> Inr (map (\<lambda>c. Str [c]) s)
      | _ \<Rightarrow> Inl TypeError)"

text \<open>\<open>load()\<close>: the entities returned and the store afterwards.\<close>

definition StorageLayer_load ::
  "runtime \<Rightarrow> (nat \<Rightarrow> string) \<Rightarrow> storageLayer \<Rightarrow> localStorage \<Rightarrow> reminder list \<times> localStorage" where
  "StorageLayer_load rt ids sl ls =
     (case isStorageAvailable ls of
        (False, ls1) \<Rightarrow> ([], ls1)
      | (True, ls1) \<Rightarrow>
          (case items ls1 (sl_storageKey sl) of
             None \<Rightarrow> ([], ls1)
           | Some d \<Rightarrow>
               if d = RawText [] then ([], ls1)
               else (case JSON_parse d of
                       Inl e \<Rightarrow> ([], ls1)
                     | Inr (Arr xs) \<Rightarrow>
                         (let migrated = migrateFromLegacy rt ids xs
                          in (migrated, snd (StorageLayer_save rt sl (map Inst migrated) ls1)))
                     | Inr parsed \<Rightarrow>
                         if parsed = Undefined \<or> parsed = Null then ([], ls1)
                         else (case iterate (or_else (prop_of parsed ''data'') (Arr [])) of
                                 Inl e \<Rightarrow> ([], ls1)
                               | Inr xs \<Rightarrow> (migrateFromLegacy rt ids xs, ls1)))))"

text \<open>
  \<open>import(backupData)\<close>.  The argument is a plain value, or an object whose \<open>data\<close> is an
  array that may hold entities.  The result is \<open>Inl\<close> when an error reaches the caller.
\<close>

datatype backup = BackupValue jsval | BackupObject "item list"

datatype message = Message_of error | Failed_to_import_item error

record import_result =
  imported :: nat
  errors :: "message list"

text \<open>The check that opens the \<open>try\<close> block: the elements to import, or the error thrown.\<close>

definition backup_items :: "backup \<Rightarrow> error + item list" where
  "backup_items b =
     (case b of
        BackupObject xs \<Rightarrow> Inr xs
      | BackupValue v \<Rightarrow>
          if \<not> truthy v \<or> \<not> truthy (prop_of v ''data'')
          then Inl (Error ''Invalid backup data format'')
          else (case prop_of v ''data'' of
                  Arr xs \<Rightarrow> Inr (map Val xs)
                | _ \<Rightarrow> Inl (Error ''Invalid backup data format'')))"

text \<open>One element of the backup: the entity it becomes, or the error thrown.\<close>

definition import_item :: "runtime \<Rightarrow> string \<Rightarrow> item \<Rightarrow> error + reminder" where
  "import_item rt nid x =
     (case x of
        Inst r \<Rightarrow> Inr r
      | Val v \<Rightarrow>
          if truthy v \<and> typeof_object v \<and> truthy (prop_of v ''title'') then
            then_ok (if truthy (prop_of v ''dueDate'')
                     then (case prop_of v ''dueDate'' of
                             Str s \<Rightarrow> pdt_value rt (Str s)
                           | d \<Rightarrow> Inr d)
                     else Inr Null) (\<lambda>due.
              Reminder_new rt nid (prop_of v ''title'') (or_else (prop_of v ''description'') (Str []))
                due (or_else (prop_of v ''priority'') (Str ''medium''))
                (or_else (prop_of v ''category'') (Str ''general'')))
          else revive rt nid v)"

fun import_each ::
  "runtime \<Rightarrow> (nat \<Rightarrow> string) \<Rightarrow> item list \<Rightarrow> reminder list \<times> message list" where
  "import_each rt ids [] = ([], [])"
| "import_each rt ids (x # xs) =
     (let rest = import_each rt (\<lambda>i. ids (Suc i)) xs
      in case import_item rt (ids 0) x of
           Inl e \<Rightarrow> (fst rest, Failed_to_import_item e # snd rest)
         | Inr r \<Rightarrow> (r # fst rest, snd rest))"

definition StorageLayer_import ::
  "runtime \<Rightarrow> (nat \<Rightarrow> string) \<Rightarrow> (nat \<Rightarrow> string) \<Rightarrow> storageLayer \<Rightarrow> backup \<Rightarrow> localStorage
     \<Rightarrow> error + import_result \<times> localStorage" where
  "StorageLayer_import rt ids ids' sl b ls =
     (case backup_items b of
        Inl e \<Rightarrow> Inr (\<lparr> imported = 0, errors = [Message_of e] \<rparr>, ls)
      | Inr xs \<Rightarrow>
          (let loaded = StorageLayer_load rt ids sl ls;
               existingReminders = fst loaded;
               new = import_each rt ids' xs;
               allReminders = existingReminders @ fst new;
               saved = StorageLayer_save rt sl (map Inst allReminders) (snd loaded)
           in Inr (\<lparr> imported = length (fst new), errors = snd new \<rparr>, snd saved)))"

section \<open>The mutations of the manager\<close>

text \<open>
  The seven mutating calls of the manager, each with the identifiers it draws, and the
  manager and store they leave behind.
\<close>

datatype mutation =
    Add string item
  | AddMultiple "nat \<Rightarrow> string" "item list"
  | Remove jsval
  | RemoveCompleted
  | Clear
  | Update jsval "(string \<times> jsval) list"
  | Import "nat \<Rightarrow> string" stored

fun apply_mutation ::
  "runtime \<Rightarrow> mutation \<Rightarrow> manager \<times> localStorage \<Rightarrow> manager \<times> localStorage" where
  "apply_mutation rt (Add nid x) (m, ls) = snd (ReminderManager_add rt nid x m ls)"
| "apply_mutation rt (AddMultiple ids xs) (m, ls) = snd (ReminderManager_addMultiple rt ids xs m ls)"
| "apply_mutation rt (Remove i) (m, ls) = snd (ReminderManager_remove rt i m ls)"
| "apply_mutation rt RemoveCompleted (m, ls) = snd (ReminderManager_removeCompleted rt m ls)"
| "apply_mutation rt Clear (m, ls) = ReminderManager_clear rt m ls"
| "apply_mutation rt (Update i ups) (m, ls) = snd (ReminderManager_update rt i ups m ls)"
| "apply_mutation rt (Import ids t) (m, ls) = snd (ReminderManager_import rt ids t m ls)"

text \<open>
  Whether a call gets as far as \<open>this.save()\<close>: an \<open>add\<close> whose argument is accepted, an
  \<open>addMultiple\<close> whose first element is, a \<open>remove\<close> or \<open>update\<close> that finds the identifier
  (and whose entity update does not throw), an \<open>import\<close> whose text decodes; \<open>clear\<close> and
  \<open>removeCompleted\<close> always.
\<close>

fun reaches_save :: "runtime \<Rightarrow> mutation \<Rightarrow> manager \<Rightarrow> bool" where
  "reaches_save rt (Add nid x) m = succeeds (entity_of rt nid x)"
| "reaches_save rt (AddMultiple ids xs) m = (xs \<noteq> [] \<and> succeeds (entity_of rt (ids 0) (hd xs)))"
| "reaches_save rt (Remove i) m = (findIndex (\<lambda>r. strict_eq (id' r) i) (reminders m) \<noteq> None)"
| "reaches_save rt RemoveCompleted m = True"
| "reaches_save rt Clear m = True"
| "reaches_save rt (Update i ups) m =
     (case findIndex (\<lambda>r. strict_eq (id' r) i) (reminders m) of
        None \<Rightarrow> False
      | Some n \<Rightarrow> fst (update ups (reminders m ! n)) = None)"
| "reaches_save rt (Import ids t) m = succeeds (decode_array rt ids t)"

section \<open>The properties stated of the code\<close>

text \<open>The completion invariant: \<open>completedAt\<close> is non-null exactly when \<open>isCompleted\<close> is true.\<close>

definition completion_consistent :: "reminder \<Rightarrow> bool" where
  "completion_consistent r = ((completedAt r \<noteq> Null) = (isCompleted r = Bool True))"

text \<open>
  The two shapes of a persisted record for a list of entities: the bare array of their
  serialised records, and the version-1 envelope around it.
\<close>

definition bare_array :: "runtime \<Rightarrow> reminder list \<Rightarrow> error + stored" where
  "bare_array rt rs =
     then_ok (all_ok (map (toJSON rt) rs)) (\<lambda>recs. Inr (JSON_stringify rt (Arr recs)))"

definition envelope :: "runtime \<Rightarrow> reminder list \<Rightarrow> error + stored" where
  "envelope rt rs =
     then_ok (all_ok (map (toJSON rt) rs)) (\<lambda>recs.
       Inr (JSON_stringify rt (Obj [(''version'', Num 1), (''data'', Arr recs)])))"

text \<open>The string of a value that is one.\<close>

definition str_of :: "jsval \<Rightarrow> string" where
  "str_of v = (case v of Str s \<Rightarrow> s | _ \<Rightarrow> [])"

definition is_Str :: "jsval \<Rightarrow> bool" where
  "is_Str v = (case v of Str s \<Rightarrow> True | _ \<Rightarrow> False)"

text \<open>
  A value contains a query in lower case: it is a string whose lower-case form has the
  lower-case form of the query as a contiguous part.
\<close>

definition lower_contains :: "runtime \<Rightarrow> jsval \<Rightarrow> string \<Rightarrow> bool" where
  "lower_contains rt v q =
     (is_Str v \<and> sublist (toLowerCase rt q) (toLowerCase rt (str_of v)))"

text \<open>
  An entity that \<open>search\<close> cannot read: its title is not a string, or its title does not
  contain the query in lower case and its description is not a string.
\<close>

definition unsearchable :: "runtime \<Rightarrow> string \<Rightarrow> reminder \<Rightarrow> bool" where
  "unsearchable rt q r =
     (\<not> is_Str (title r) \<or> (\<not> lower_contains rt (title r) q \<and> \<not> is_Str (description r)))"

text \<open>
  A string contains a query up to a mapping \<open>f\<close> of code units (their lower-case forms):
  some contiguous part of it has the image of the query as its image.
\<close>

definition ci_contains :: "(char \<Rightarrow> char) \<Rightarrow> string \<Rightarrow> string \<Rightarrow> bool" where
  "ci_contains f s q = (\<exists>u. sublist u s \<and> map f u = map f q)"

text \<open>The urgency of a priority: high before medium before low.\<close>

definition rank :: "reminder \<Rightarrow> nat" where
  "rank r =
     (if priority r = Str ''high'' then 3
      else if priority r = Str ''medium'' then 2
      else if priority r = Str ''low'' then 1
      else 0)"

text \<open>An hour and a day in nanoseconds.\<close>

definition one_hour :: int where
  "one_hour = 3600000000000"

definition one_day :: int where
  "one_day = 86400000000000"

text \<open>
  What is assumed of \<open>duration.total('hours')\<close>: a longer duration has no smaller total, and
  the total of a whole number of hours up to \<open>2^53\<close> is that number.
\<close>

definition total_law :: "runtime \<Rightarrow> bool" where
  "total_law rt =
     ((\<forall>a b. a \<le> b \<longrightarrow> total_hours rt a \<le> total_hours rt b)
      \<and> (\<forall>k. \<bar>k\<bar> \<le> 2 ^ 53 \<longrightarrow> total_hours rt (k * one_hour) = of_int k))"

text \<open>
  The whole numbers of hours and of days that the code computes for a duration of \<open>ns\<close>
  nanoseconds: the floor of the total of hours, and the floor of that total divided by 24.
\<close>

definition whole_hours :: "runtime \<Rightarrow> int \<Rightarrow> int" where
  "whole_hours rt ns = \<lfloor>total_hours rt ns\<rfloor>"

definition whole_days :: "runtime \<Rightarrow> int \<Rightarrow> int" where
  "whole_days rt ns = \<lfloor>number_div (total_hours rt ns) 24\<rfloor>"

text \<open>
  The wording of the due-date text for a signed duration of \<open>ns\<close> nanoseconds, given the
  whole numbers of hours and of days that stand for it.
\<close>

definition due_text :: "int \<Rightarrow> int \<Rightarrow> int \<Rightarrow> string" where
  "due_text ns hours days =
     (if ns < 0 then
        (if days < - 1 then number_string \<bar>days\<bar> @ '' days overdue''
         else number_string \<bar>hours\<bar> @ '' hours overdue'')
      else if 1 \<le> days then number_string days @ '' days remaining''
      else number_string hours @ '' hours remaining'')"

text \<open>
  The wording of the due-date text for a duration of \<open>ns\<close> nanoseconds with the number
  taken as the floor of the absolute value of the duration, in days or in hours.
\<close>

definition floored_absolute :: "int \<Rightarrow> string" where
  "floored_absolute ns =
     (if ns < 0 then
        (if \<bar>ns\<bar> > one_day then number_string (\<bar>ns\<bar> div one_day) @ '' days overdue''
         else number_string (\<bar>ns\<bar> div one_hour) @ '' hours overdue'')
      else if ns \<ge> one_day then number_string (\<bar>ns\<bar> div one_day) @ '' days remaining''
      else number_string (\<bar>ns\<bar> div one_hour) @ '' hours remaining'')"

text \<open>
  A complete legacy record: a plain object with all nine fields, an identifier and a
  category that are non-empty strings, a non-blank title, a string description, one of the
  three priorities, a boolean completion flag, and dates that are strings the Temporal
  library reads (the due date and the completion date may be \<open>null\<close>).
\<close>

definition date_ok :: "runtime \<Rightarrow> jsval \<Rightarrow> bool" where
  "date_ok rt v = (case v of Str s \<Rightarrow> s \<noteq> [] \<and> pdt_parse rt (Str s) \<noteq> None | _ \<Rightarrow> False)"

definition complete_record :: "runtime \<Rightarrow> jsval \<Rightarrow> bool" where
  "complete_record rt x =
     (is_Str (prop_of x ''id'') \<and> str_of (prop_of x ''id'') \<noteq> []
      \<and> is_Str (prop_of x ''title'') \<and> trim (str_of (prop_of x ''title'')) \<noteq> []
      \<and> is_Str (prop_of x ''description'')
      \<and> (prop_of x ''dueDate'' = Null \<or> date_ok rt (prop_of x ''dueDate''))
      \<and> prop_of x ''priority'' \<in> set validPriorities
      \<and> is_Str (prop_of x ''category'') \<and> str_of (prop_of x ''category'') \<noteq> []
      \<and> (prop_of x ''isCompleted'' = Bool True \<or> prop_of x ''isCompleted'' = Bool False)
      \<and> date_ok rt (prop_of x ''createdAt'')
      \<and> (prop_of x ''completedAt'' = Null \<or> date_ok rt (prop_of x ''completedAt'')))"

text \<open>The date a field of a record stands for: \<open>null\<close>, or the instant its string denotes.\<close>

definition date_of :: "runtime \<Rightarrow> jsval \<Rightarrow> jsval" where
  "date_of rt v =
     (if v = Null then Null else case pdt_parse rt v of None \<Rightarrow> Null | Some d \<Rightarrow> PDT d)"

text \<open>An entity equal to a record field for field.\<close>

definition same_fields :: "runtime \<Rightarrow> reminder \<Rightarrow> jsval \<Rightarrow> bool" where
  "same_fields rt r x =
     (id' r = prop_of x ''id'' \<and> title r = prop_of x ''title''
      \<and> description r = prop_of x ''description''
      \<and> dueDate r = date_of rt (prop_of x ''dueDate'')
      \<and> priority r = prop_of x ''priority'' \<and> category r = prop_of x ''category''
      \<and> isCompleted r = prop_of x ''isCompleted''
      \<and> createdAt r = date_of rt (prop_of x ''createdAt'')
      \<and> completedAt r = date_of rt (prop_of x ''completedAt''))"

text \<open>The entity that has the fields of a record, its dates read by the Temporal library.\<close>

definition record_entity :: "runtime \<Rightarrow> jsval \<Rightarrow> reminder" where
  "record_entity rt x =
     \<lparr> id' = prop_of x ''id'', title = prop_of x ''title'',
       description = prop_of x ''description'',
       dueDate = date_of rt (prop_of x ''dueDate''),
       priority = prop_of x ''priority'', category = prop_of x ''category'',
       isCompleted = prop_of x ''isCompleted'',
       createdAt = date_of rt (prop_of x ''createdAt''),
       completedAt = date_of rt (prop_of x ''completedAt'') \<rparr>"

section \<open>Concrete data\<close>

text \<open>
  A runtime for evaluation at concrete inputs.  It reads and writes the ISO strings of a
  few instants, given with their nanosecond counts from 1970-01-01T00:00:00; its clock
  stands at 2025-06-01T12:00:00.
\<close>

definition iso_table :: "(string \<times> int) list" where
  "iso_table =
     [(''2025-06-01T12:00:00'', 1748779200000000000),
      (''2026-12-25T15:30:00'', 1798212600000000000),
      (''2024-01-01T10:00:00'', 1704103200000000000),
      (''2025-05-31T00:00:00'', 1748649600000000000)]"

text \<open>
  The lower-case form of a code unit below 256.  The lower-case form of a string of such
  code units is the string of their lower-case forms.
\<close>

definition lower_char :: "char \<Rightarrow> char" where
  "lower_char c =
     (let n = (of_char c :: nat)
      in if (65 \<le> n \<and> n \<le> 90) \<or> (192 \<le> n \<and> n \<le> 222 \<and> n \<noteq> 215)
         then char_of (n + 32) else c)"

text \<open>The total of a duration in hours: the double nearest to the exact quotient.\<close>

definition nearest_hours :: "int \<Rightarrow> real" where
  "nearest_hours ns = to_double (of_int ns / of_int one_hour)"

definition sample_runtime :: runtime where
  "sample_runtime =
     \<lparr> pdt_parse = (\<lambda>v. case v of Str s \<Rightarrow> map_of iso_table s | _ \<Rightarrow> None),
       pdt_toString = (\<lambda>d. case map_of (map (\<lambda>p. (snd p, fst p)) iso_table) d of
                              None \<Rightarrow> [] | Some s \<Rightarrow> s),
       other_toString = (\<lambda>v. None),
       other_less = (\<lambda>a b. None),
       toLowerCase = map lower_char,
       total_hours = nearest_hours,
       now = 1748779200000000000,
       now_iso = ''2025-06-01T12:00:00.000Z'' \<rparr>"

definition sample_store :: localStorage where
  "sample_store = \<lparr> present = True, items = (\<lambda>k. None), accepts = (\<lambda>k v. True) \<rparr>"

definition sample_reminder :: reminder where
  "sample_reminder =
     \<lparr> id' = Str ''reminder_1'', title = Str ''Test task'', description = Str ''Test description'',
       dueDate = PDT 1798212600000000000, priority = Str ''high'', category = Str ''work'',
       isCompleted = Bool False, createdAt = PDT 1748779200000000000, completedAt = Null \<rparr>"

definition sample_record :: jsval where
  "sample_record =
     Obj [(''id'', Str ''reminder_1''), (''title'', Str ''Test task''),
          (''description'', Str ''Test description''), (''dueDate'', Str ''2026-12-25T15:30:00''),
          (''priority'', Str ''high''), (''category'', Str ''work''),
          (''isCompleted'', Bool False), (''createdAt'', Str ''2025-06-01T12:00:00''),
          (''completedAt'', Null)]"

definition sample_manager :: manager where
  "sample_manager = \<lparr> storageKey = ''reminders'', reminders = [] \<rparr>"

text \<open>An entity 36 hours past its due date on the clock of the sample runtime.\<close>

definition overdue_reminder :: reminder where
  "overdue_reminder = sample_reminder\<lparr> dueDate := PDT 1748649600000000000 \<rparr>"

text \<open>The sample entity with its due date given as an ISO string.\<close>

definition string_due_reminder :: reminder where
  "string_due_reminder = sample_reminder\<lparr> dueDate := Str ''2026-12-25T15:30:00'' \<rparr>"

text \<open>A plain record with a title whose description is \<open>null\<close>.\<close>

definition undescribed :: jsval where
  "undescribed = Obj [(''title'', Str ''Call mom''), (''description'', Null)]"

text \<open>A legacy record that is completed but carries no completion date.\<close>

definition legacy_done :: jsval where
  "legacy_done =
     Obj [(''id'', Str ''legacy_1''), (''title'', Str ''Legacy Task''),
          (''priority'', Str ''medium''), (''isCompleted'', Bool True),
          (''createdAt'', Str ''2024-01-01T10:00:00'')]"

text \<open>A complete legacy record whose category is the empty string.\<close>

definition legacy_uncategorised :: jsval where
  "legacy_uncategorised =
     Obj [(''id'', Str ''legacy_1''), (''title'', Str ''Legacy Task''),
          (''description'', Str ''Old format task''), (''dueDate'', Null),
          (''priority'', Str ''medium''), (''category'', Str []),
          (''isCompleted'', Bool False), (''createdAt'', Str ''2024-01-01T10:00:00''),
          (''completedAt'', Null)]"

text \<open>A collection of three entities, of low, high and medium priority in this order.\<close>

definition call_mom :: reminder where
  "call_mom =
     \<lparr> id' = Str ''reminder_4'', title = Str ''Call mom'', description = Str [],
       dueDate = Null, priority = Str ''low'', category = Str ''personal'',
       isCompleted = Bool False, createdAt = PDT 1748779200000000000, completedAt = Null \<rparr>"

definition work_meeting :: reminder where
  "work_meeting =
     \<lparr> id' = Str ''reminder_1'', title = Str ''Work meeting'',
       description = Str ''Weekly team sync'', dueDate = PDT 1798212600000000000,
       priority = Str ''high'', category = Str ''work'', isCompleted = Bool False,
       createdAt = PDT 1748779200000000000, completedAt = Null \<rparr>"

definition buy_groceries :: reminder where
  "buy_groceries =
     \<lparr> id' = Str ''reminder_2'', title = Str ''Buy groceries'',
       description = Str ''Milk, bread, eggs'', dueDate = Null, priority = Str ''medium'',
       category = Str ''personal'', isCompleted = Bool False,
       createdAt = PDT 1748779200000000000, completedAt = Null \<rparr>"

definition sample_collection :: manager where
  "sample_collection =
     \<lparr> storageKey = ''reminders'', reminders = [call_mom, work_meeting, buy_groceries] \<rparr>"

text \<open>Identifiers for the entities a call creates, by the position of the draw.\<close>

definition sample_ids :: "nat \<Rightarrow> string" where
  "sample_ids i = ''reminder_'' @ digits (100 + i)"

text \<open>A plain record with a title, as it may be passed where entities are expected.\<close>

definition plain_task :: jsval where
  "plain_task = Obj [(''title'', Str ''Plain task''), (''description'', Str ''Not an entity'')]"

text \<open>A store that holds an empty envelope under the key of the availability probe.\<close>

definition probe_store :: localStorage where
  "probe_store =
     sample_store\<lparr> items := (\<lambda>k. if k = probe_key
                                   then Some (JsonText (Obj [(''version'', Num 1), (''data'', Arr [])]))
                                   else None) \<rparr>"

text \<open>A store that holds a legacy bare array of one record under the key \<open>reminders\<close>.\<close>

definition legacy_store :: "jsval \<Rightarrow> localStorage" where
  "legacy_store x =
     sample_store\<lparr> items := (\<lambda>k. if k = ''reminders'' then Some (JsonText (Arr [x])) else None) \<rparr>"

section \<open>Basic facts about the model\<close>

lemma then_ok_Inr: "then_ok m f = Inr y \<longleftrightarrow> (\<exists>x. m = Inr x \<and> f x = Inr y)"
  by (cases m) (simp_all add: then_ok_def)

lemma then_ok_simps:
  "then_ok (Inl e) f = Inl e"
  "then_ok (Inr x) f = f x"
  by (simp_all add: then_ok_def)

lemma normalize_Inr:
  "normalizeReminderData rt nid x = Inr n
     \<longleftrightarrow> (x \<noteq> Undefined \<and> x \<noteq> Null \<and> n = normalized_record rt nid x)"
  by (auto simp: normalizeReminderData_def)

lemma prop_of_normalized:
  "prop_of (normalized_record rt nid x) ''id'' = or_else (prop_of x ''id'') (Str nid)"
  "prop_of (normalized_record rt nid x) ''title'' = or_else (prop_of x ''title'') (Str [])"
  "prop_of (normalized_record rt nid x) ''description''
     = or_else (prop_of x ''description'') (Str [])"
  "prop_of (normalized_record rt nid x) ''dueDate'' = or_else (prop_of x ''dueDate'') Null"
  "prop_of (normalized_record rt nid x) ''priority''
     = normalized_priority (prop_of x ''priority'')"
  "prop_of (normalized_record rt nid x) ''category''
     = or_else (prop_of x ''category'') (Str ''general'')"
  "prop_of (normalized_record rt nid x) ''isCompleted''
     = Bool (truthy (prop_of x ''isCompleted''))"
  "prop_of (normalized_record rt nid x) ''createdAt''
     = or_else (prop_of x ''createdAt'') (Str (now_iso rt))"
  "prop_of (normalized_record rt nid x) ''completedAt''
     = or_else (prop_of x ''completedAt'') Null"
  by (simp_all add: normalized_record_def)

lemma toJSON_Inr:
  "toJSON rt r = Inr json \<longleftrightarrow>
     (\<exists>due created completed.
        (if truthy (dueDate r) then map_sum (\<lambda>e. e) Str (method_toString rt (dueDate r))
         else Inr Null) = Inr due
      \<and> map_sum (\<lambda>e. e) Str (method_toString rt (createdAt r)) = Inr created
      \<and> (if truthy (completedAt r)
          then map_sum (\<lambda>e. e) Str (method_toString rt (completedAt r))
          else Inr Null) = Inr completed
      \<and> json = Obj [(''id'', id' r), (''title'', title r), (''description'', description r),
               (''dueDate'', due), (''priority'', priority r), (''category'', category r),
               (''isCompleted'', isCompleted r), (''createdAt'', created),
               (''completedAt'', completed)])"
  unfolding toJSON_def then_ok_Inr by auto

lemma isStorageAvailable_cases:
  "isStorageAvailable ls =
     (if present ls \<and> accepts ls probe_key (RawText ''test'')
      then (True, ls\<lparr> items := (items ls)(probe_key := None) \<rparr>) else (False, ls))"
  by (auto simp: isStorageAvailable_def setItem_def removeItem_def)

lemma sample_new:
  "Reminder_new sample_runtime ''reminder_1'' (Str ''Test task'') (Str ''Test description'')
     (PDT 1798212600000000000) (Str ''high'') (Str ''work'') = Inr sample_reminder"
  by (simp add: Reminder_new_def check_title_def check_priority_def validPriorities_def dflt_def
      trim_def is_space_def sample_runtime_def sample_reminder_def)

lemma sample_runtime_strings:
  "pdt_toString sample_runtime 1798212600000000000 = ''2026-12-25T15:30:00''"
  "pdt_parse sample_runtime (Str ''2026-12-25T15:30:00'') = Some 1798212600000000000"
  "now sample_runtime = 1748779200000000000"
  "pdt_toString sample_runtime 1748779200000000000 = ''2025-06-01T12:00:00''"
  "pdt_parse sample_runtime (Str ''2025-06-01T12:00:00'') = Some 1748779200000000000"
  by (simp_all add: sample_runtime_def iso_table_def)

lemma sample_store_simps:
  "present sample_store"
  "accepts sample_store k t"
  "items sample_store k = None"
  by (simp_all add: sample_store_def)

section \<open>Atomicity of the entity update\<close>

lemma update_stops_at_invalid_entry:
  "update ps r = (Some e, r') \<Longrightarrow>
     \<exists>pre k v post. ps = pre @ (k, v) # post \<and> k \<in> set validProperties
        \<and> entry_error k v = Some e \<and> update pre r = (None, r')"
proof (induction ps arbitrary: r)
  case Nil
  then show ?case by simp
next
  case (Cons p ps)
  obtain k v where p: "p = (k, v)" by (cases p)
  show ?case
  proof (cases "k \<in> set validProperties")
    case False
    with Cons.prems p have "update ps r = (Some e, r')" by simp
    from Cons.IH[OF this] obtain pre k' v' post where
      "ps = pre @ (k', v') # post" "k' \<in> set validProperties" "entry_error k' v' = Some e"
      "update pre r = (None, r')" by blast
    then have "p # ps = (p # pre) @ (k', v') # post \<and> k' \<in> set validProperties
        \<and> entry_error k' v' = Some e \<and> update (p # pre) r = (None, r')"
      using False p by simp
    then show ?thesis by blast
  next
    case True
    show ?thesis
    proof (cases "entry_error k v")
      case None
      with Cons.prems p True have "update ps (assign k v r) = (Some e, r')" by simp
      from Cons.IH[OF this] obtain pre k' v' post where
        "ps = pre @ (k', v') # post" "k' \<in> set validProperties" "entry_error k' v' = Some e"
        "update pre (assign k v r) = (None, r')" by blast
      then have "p # ps = (p # pre) @ (k', v') # post \<and> k' \<in> set validProperties
          \<and> entry_error k' v' = Some e \<and> update (p # pre) r = (None, r')"
        using True None p by simp
      then show ?thesis by blast
    next
      case (Some e')
      with Cons.prems p True have "e' = e" "r' = r" by simp_all
      then have "p # ps = [] @ (k, v) # ps \<and> k \<in> set validProperties
          \<and> entry_error k v = Some e \<and> update [] r = (None, r')"
        using True Some p by simp
      then show ?thesis by blast
    qed
  qed
qed

lemma update_unrecognised:
  "\<forall>p\<in>set ps. fst p \<notin> set validProperties \<Longrightarrow> update ps r = (None, r)"
  by (induction ps arbitrary: r) auto

lemma update_sample_blank_title:
  "update [(''description'', Str ''changed''), (''title'', Str [])] sample_reminder
     = (Some (Error ''Title is required''), sample_reminder\<lparr> description := Str ''changed'' \<rparr>)"
  by (simp add: validProperties_def entry_error_def check_title_def assign_def)

lemma update_sample_only_blank_title:
  "update [(''title'', Str [])] sample_reminder
     = (Some (Error ''Title is required''), sample_reminder)"
  by (simp add: validProperties_def entry_error_def check_title_def)

text \<open>
  Claim C3, as stated, fails.  An update with a new description followed by an empty title
  throws \<open>Title is required\<close>, and the description has been changed by then: the entity is
  not what it was.
\<close>

theorem update_not_atomic:
  "fst (update [(''description'', Str ''changed''), (''title'', Str [])] sample_reminder)
     = Some (Error ''Title is required'')
   \<and> description (snd (update [(''description'', Str ''changed''), (''title'', Str [])]
        sample_reminder)) = Str ''changed''
   \<and> description sample_reminder = Str ''Test description''"
  by (simp add: validProperties_def entry_error_def check_title_def assign_def
      sample_reminder_def)

text \<open>
  Claim C3, amended.  When \<open>update\<close> throws, the argument splits at the entry that failed
  validation: that entry is a recognised field whose check gives the error thrown, it and
  the entries after it are not applied, and the entity afterwards is the entity updated
  with the entries before it, all of which were applied without error.  The entity is
  unchanged when no recognised field comes before the invalid one.
\<close>

theorem update_failure_keeps_earlier_fields:
  assumes "update ps r = (Some e, r')"
  shows "\<exists>pre k v post. ps = pre @ (k, v) # post \<and> k \<in> set validProperties
           \<and> entry_error k v = Some e \<and> update pre r = (None, r')
           \<and> ((\<forall>p\<in>set pre. fst p \<notin> set validProperties) \<longrightarrow> r' = r)"
proof -
  from update_stops_at_invalid_entry[OF assms] obtain pre k v post where
    split: "ps = pre @ (k, v) # post" "k \<in> set validProperties" "entry_error k v = Some e"
      "update pre r = (None, r')" by blast
  have "(\<forall>p\<in>set pre. fst p \<notin> set validProperties) \<longrightarrow> r' = r"
    using update_unrecognised[of pre r] split(4) by auto
  with split show ?thesis by blast
qed

theorem update_failure_keeps_earlier_fields_witness:
  "(\<exists>pre k v post.
      [(''description'', Str ''changed''), (''title'', Str [])] = pre @ (k, v) # post
      \<and> entry_error k v = Some (Error ''Title is required'')
      \<and> update pre sample_reminder
          = (None, sample_reminder\<lparr> description := Str ''changed'' \<rparr>))
   \<and> (\<exists>pre k v post.
      [(''title'', Str [])] = pre @ (k, v) # post \<and> pre = []
      \<and> entry_error k v = Some (Error ''Title is required'')
      \<and> update pre sample_reminder = (None, sample_reminder))"
proof (rule conjI)
  show "\<exists>pre k v post.
      [(''description'', Str ''changed''), (''title'', Str [])] = pre @ (k, v) # post
      \<and> entry_error k v = Some (Error ''Title is required'')
      \<and> update pre sample_reminder
          = (None, sample_reminder\<lparr> description := Str ''changed'' \<rparr>)"
    using update_failure_keeps_earlier_fields[OF update_sample_blank_title] by blast
next
  from update_failure_keeps_earlier_fields[OF update_sample_only_blank_title]
  obtain pre k v post where
    split: "[(''title'', Str [])] = pre @ (k, v) # post"
      "entry_error k v = Some (Error ''Title is required'')"
      "update pre sample_reminder = (None, sample_reminder)"
    by blast
  from split(1) have "pre = []" by (cases pre) simp_all
  with split show "\<exists>pre k v post.
      [(''title'', Str [])] = pre @ (k, v) # post \<and> pre = []
      \<and> entry_error k v = Some (Error ''Title is required'')
      \<and> update pre sample_reminder = (None, sample_reminder)"
    by blast
qed

section \<open>The completion invariant\<close>

lemma pdt_value_PDT: "pdt_value rt v = Inr w \<Longrightarrow> \<exists>d. w = PDT d"
  by (auto simp: pdt_value_def then_ok_Inr)

lemma truthy_or_else_Null: "truthy (or_else v Null) = truthy v"
  by (simp add: or_else_def)

lemma Reminder_new_completion:
  "Reminder_new rt nid t d due p c = Inr r \<Longrightarrow> isCompleted r = Bool False \<and> completedAt r = Null"
  by (auto simp: Reminder_new_def Let_def split: option.splits)

lemma assign_completion:
  "isCompleted (assign k v r) = isCompleted r \<and> completedAt (assign k v r) = completedAt r"
  by (simp add: assign_def)

lemma update_completion:
  "isCompleted (snd (update ps r)) = isCompleted r
   \<and> completedAt (snd (update ps r)) = completedAt r"
  by (induction ps r rule: update.induct) (auto simp: assign_completion split: option.splits)

lemma fromJSON_completion:
  assumes "fromJSON rt nid json = Inr r"
  shows "isCompleted r = prop_of json ''isCompleted''"
    and "(completedAt r \<noteq> Null) = truthy (prop_of json ''completedAt'')"
  using assms
  by (auto simp: fromJSON_def then_ok_Inr split: if_splits dest: pdt_value_PDT)

lemma new_consistent:
  "Reminder_new rt nid t d due p c = Inr r \<Longrightarrow> completion_consistent r"
  by (simp add: completion_consistent_def Reminder_new_completion)

lemma markComplete_consistent:
  "completed \<in> {Undefined, Null, Bool True, Bool False}
     \<Longrightarrow> completion_consistent (markComplete rt completed r)"
  by (auto simp: completion_consistent_def markComplete_def dflt_def Let_def)

lemma update_consistent:
  "completion_consistent (snd (update ps r)) = completion_consistent r"
  by (simp add: completion_consistent_def update_completion)

lemma clone_consistent:
  "clone rt nid r = Inr r' \<Longrightarrow> completion_consistent r' = completion_consistent r"
  by (auto simp: clone_def then_ok_Inr completion_consistent_def)

lemma fromJSON_consistent:
  "fromJSON rt nid json = Inr r \<Longrightarrow>
     completion_consistent r
       = (truthy (prop_of json ''completedAt'') = (prop_of json ''isCompleted'' = Bool True))"
  by (simp add: completion_consistent_def fromJSON_completion)

lemma revive_consistent:
  "revive rt nid x = Inr r \<Longrightarrow>
     completion_consistent r
       = (truthy (prop_of x ''completedAt'') = truthy (prop_of x ''isCompleted''))"
  by (auto simp: revive_def then_ok_Inr fromJSON_consistent normalize_Inr prop_of_normalized
      truthy_or_else_Null)

lemma sample_clone:
  "clone sample_runtime ''reminder_2'' sample_reminder
     = Inr (sample_reminder\<lparr> id' := Str ''reminder_2'' \<rparr>)"
  by (simp add: clone_def then_ok_def Reminder_new_def check_title_def check_priority_def
      validPriorities_def dflt_def trim_def is_space_def sample_runtime_def sample_reminder_def)

lemma sample_fromJSON:
  "fromJSON sample_runtime ''reminder_2'' sample_record = Inr sample_reminder"
  by (simp add: fromJSON_def then_ok_def Reminder_new_def check_title_def check_priority_def
      validPriorities_def dflt_def trim_def is_space_def pdt_value_def pdt_from_def
      sample_runtime_def sample_reminder_def sample_record_def iso_table_def)

lemma sample_revive:
  "revive sample_runtime ''reminder_2'' sample_record = Inr sample_reminder"
  by (simp add: revive_def normalizeReminderData_def normalized_record_def
      normalized_priority_def or_else_def fromJSON_def then_ok_def Reminder_new_def
      check_title_def check_priority_def validPriorities_def dflt_def trim_def is_space_def
      pdt_value_def pdt_from_def sample_runtime_def sample_reminder_def sample_record_def
      iso_table_def)

text \<open>
  Claim C2, as stated, fails for deserialisation.  A legacy record that is completed and
  has no completion date is normalised and deserialised into an entity whose \<open>isCompleted\<close>
  is true and whose \<open>completedAt\<close> is null.
\<close>

theorem deserialised_entity_inconsistent:
  "map_sum id (\<lambda>r. (isCompleted r, completedAt r))
     (revive sample_runtime ''reminder_2'' legacy_done) = Inr (Bool True, Null)"
  by (simp add: revive_def normalizeReminderData_def normalized_record_def
      normalized_priority_def legacy_done_def then_ok_def or_else_def validPriorities_def
      fromJSON_def Reminder_new_def check_title_def check_priority_def dflt_def trim_def
      is_space_def pdt_value_def pdt_from_def sample_runtime_def iso_table_def)

text \<open>
  Claim C2, amended.  \<open>completedAt\<close> is non-null exactly when \<open>isCompleted\<close> is true for every
  entity the constructor returns and after every \<open>markComplete\<close> (toggling, or with an
  explicit boolean); \<open>update\<close> and \<open>clone\<close> keep the two fields as they are, so the property
  holds after them exactly when it held before.  Deserialisation copies the two fields from
  the record, each on its own: the entity \<open>fromJSON\<close> returns has the property exactly when
  the record has a completion date exactly when its \<open>isCompleted\<close> is \<open>true\<close>, and after
  normalisation exactly when the record has a completion date exactly when its
  \<open>isCompleted\<close> is truthy.
\<close>

theorem completion_invariant:
  "(Reminder_new rt nid t d due p c = Inr r0 \<longrightarrow> completion_consistent r0)
   \<and> (completed \<in> {Undefined, Null, Bool True, Bool False}
        \<longrightarrow> completion_consistent (markComplete rt completed r1))
   \<and> (completion_consistent (snd (update ps r2)) = completion_consistent r2)
   \<and> (clone rt nid3 r3 = Inr r4 \<longrightarrow> completion_consistent r4 = completion_consistent r3)
   \<and> (fromJSON rt nid5 json = Inr r5 \<longrightarrow>
        completion_consistent r5
          = (truthy (prop_of json ''completedAt'') = (prop_of json ''isCompleted'' = Bool True)))
   \<and> (revive rt nid6 x = Inr r6 \<longrightarrow>
        completion_consistent r6
          = (truthy (prop_of x ''completedAt'') = truthy (prop_of x ''isCompleted'')))"
proof (intro conjI impI)
  assume "Reminder_new rt nid t d due p c = Inr r0"
  then show "completion_consistent r0" by (rule new_consistent)
next
  assume "completed \<in> {Undefined, Null, Bool True, Bool False}"
  then show "completion_consistent (markComplete rt completed r1)"
    by (rule markComplete_consistent)
next
  show "completion_consistent (snd (update ps r2)) = completion_consistent r2"
    by (rule update_consistent)
next
  assume "clone rt nid3 r3 = Inr r4"
  then show "completion_consistent r4 = completion_consistent r3" by (rule clone_consistent)
next
  assume "fromJSON rt nid5 json = Inr r5"
  then show "completion_consistent r5
      = (truthy (prop_of json ''completedAt'') = (prop_of json ''isCompleted'' = Bool True))"
    by (rule fromJSON_consistent)
next
  assume "revive rt nid6 x = Inr r6"
  then show "completion_consistent r6
      = (truthy (prop_of x ''completedAt'') = truthy (prop_of x ''isCompleted''))"
    by (rule revive_consistent)
qed

theorem completion_invariant_witness:
  "completion_consistent sample_reminder
   \<and> completion_consistent (markComplete sample_runtime Undefined sample_reminder)
   \<and> completion_consistent (snd (update [(''title'', Str ''Updated'')] sample_reminder))
   \<and> completion_consistent (sample_reminder\<lparr> id' := Str ''reminder_2'' \<rparr>)
   \<and> truthy (prop_of sample_record ''completedAt'')
       = (prop_of sample_record ''isCompleted'' = Bool True)
   \<and> truthy (prop_of sample_record ''completedAt'')
       = truthy (prop_of sample_record ''isCompleted'')"
proof -
  have inst:
    "(Reminder_new sample_runtime ''reminder_1'' (Str ''Test task'') (Str ''Test description'')
        (PDT 1798212600000000000) (Str ''high'') (Str ''work'') = Inr sample_reminder
        \<longrightarrow> completion_consistent sample_reminder)
     \<and> (Undefined \<in> {Undefined, Null, Bool True, Bool False}
          \<longrightarrow> completion_consistent (markComplete sample_runtime Undefined sample_reminder))
     \<and> (completion_consistent (snd (update [(''title'', Str ''Updated'')] sample_reminder))
          = completion_consistent sample_reminder)
     \<and> (clone sample_runtime ''reminder_2'' sample_reminder
            = Inr (sample_reminder\<lparr> id' := Str ''reminder_2'' \<rparr>)
          \<longrightarrow> completion_consistent (sample_reminder\<lparr> id' := Str ''reminder_2'' \<rparr>)
                = completion_consistent sample_reminder)
     \<and> (fromJSON sample_runtime ''reminder_2'' sample_record = Inr sample_reminder
          \<longrightarrow> completion_consistent sample_reminder
                = (truthy (prop_of sample_record ''completedAt'')
                     = (prop_of sample_record ''isCompleted'' = Bool True)))
     \<and> (revive sample_runtime ''reminder_2'' sample_record = Inr sample_reminder
          \<longrightarrow> completion_consistent sample_reminder
                = (truthy (prop_of sample_record ''completedAt'')
                     = truthy (prop_of sample_record ''isCompleted'')))"
    by (rule completion_invariant)
  have new: "completion_consistent sample_reminder"
    using inst sample_new by simp
  have mark: "completion_consistent (markComplete sample_runtime Undefined sample_reminder)"
    using inst by simp
  have upd: "completion_consistent (snd (update [(''title'', Str ''Updated'')] sample_reminder))"
    using inst new by simp
  have cln: "completion_consistent (sample_reminder\<lparr> id' := Str ''reminder_2'' \<rparr>)"
    using inst new sample_clone by simp
  have "truthy (prop_of sample_record ''completedAt'')
      = (prop_of sample_record ''isCompleted'' = Bool True)"
    using inst new sample_fromJSON by simp
  moreover have "truthy (prop_of sample_record ''completedAt'')
      = truthy (prop_of sample_record ''isCompleted'')"
    using inst new sample_revive by simp
  ultimately show ?thesis using new mark upd cln by simp
qed

section \<open>Serialisation and back\<close>

lemma dflt_idem: "dflt a (dflt a v) = dflt a v"
  by (simp add: dflt_def)

lemma dflt_not_Undefined: "a \<noteq> Undefined \<Longrightarrow> dflt a v \<noteq> Undefined"
  by (simp add: dflt_def)

lemma Reminder_new_Inr:
  "Reminder_new rt nid t d due p c = Inr r \<longleftrightarrow>
     (check_title t = None \<and> check_priority (dflt (Str ''medium'') p) = None
      \<and> r = \<lparr> id' = Str nid, title = t, description = dflt (Str []) d,
                dueDate = dflt Null due, priority = dflt (Str ''medium'') p,
                category = dflt (Str ''general'') c, isCompleted = Bool False,
                createdAt = PDT (now rt), completedAt = Null \<rparr>)"
  by (auto simp: Reminder_new_def Let_def split: option.splits)

lemma prop_of_record:
  "prop_of (Obj [(''id'', a), (''title'', b), (''description'', c), (''dueDate'', d),
      (''priority'', e), (''category'', f), (''isCompleted'', g), (''createdAt'', h),
      (''completedAt'', i)]) ''id'' = a"
  "prop_of (Obj [(''id'', a), (''title'', b), (''description'', c), (''dueDate'', d),
      (''priority'', e), (''category'', f), (''isCompleted'', g), (''createdAt'', h),
      (''completedAt'', i)]) ''title'' = b"
  "prop_of (Obj [(''id'', a), (''title'', b), (''description'', c), (''dueDate'', d),
      (''priority'', e), (''category'', f), (''isCompleted'', g), (''createdAt'', h),
      (''completedAt'', i)]) ''description'' = c"
  "prop_of (Obj [(''id'', a), (''title'', b), (''description'', c), (''dueDate'', d),
      (''priority'', e), (''category'', f), (''isCompleted'', g), (''createdAt'', h),
      (''completedAt'', i)]) ''dueDate'' = d"
  "prop_of (Obj [(''id'', a), (''title'', b), (''description'', c), (''dueDate'', d),
      (''priority'', e), (''category'', f), (''isCompleted'', g), (''createdAt'', h),
      (''completedAt'', i)]) ''priority'' = e"
  "prop_of (Obj [(''id'', a), (''title'', b), (''description'', c), (''dueDate'', d),
      (''priority'', e), (''category'', f), (''isCompleted'', g), (''createdAt'', h),
      (''completedAt'', i)]) ''category'' = f"
  "prop_of (Obj [(''id'', a), (''title'', b), (''description'', c), (''dueDate'', d),
      (''priority'', e), (''category'', f), (''isCompleted'', g), (''createdAt'', h),
      (''completedAt'', i)]) ''isCompleted'' = g"
  "prop_of (Obj [(''id'', a), (''title'', b), (''description'', c), (''dueDate'', d),
      (''priority'', e), (''category'', f), (''isCompleted'', g), (''createdAt'', h),
      (''completedAt'', i)]) ''createdAt'' = h"
  "prop_of (Obj [(''id'', a), (''title'', b), (''description'', c), (''dueDate'', d),
      (''priority'', e), (''category'', f), (''isCompleted'', g), (''createdAt'', h),
      (''completedAt'', i)]) ''completedAt'' = i"
  by simp_all

text \<open>
  Claim C5.  Let the constructor accept a title, description, priority and category, with a
  due date that is absent, \<open>null\<close> or a \<open>PlainDateTime\<close>.  Then \<open>toJSON\<close> succeeds on the new
  entity, \<open>fromJSON\<close> succeeds on the result, and the entity it returns has the title,
  description, priority, category, completion flag and due date of the original.  What is
  assumed of the Temporal library is that the string it writes for the due date is not
  empty and is read back as that date, and that it can read the string it writes for the
  creation time.
\<close>

theorem serialise_deserialise_roundtrip:
  assumes created: "Reminder_new rt nid t d due p c = Inr r"
    and due: "due = Undefined \<or> due = Null
       \<or> (\<exists>x. due = PDT x \<and> pdt_toString rt x \<noteq> []
               \<and> pdt_parse rt (Str (pdt_toString rt x)) = Some x)"
    and clock: "pdt_parse rt (Str (pdt_toString rt (now rt))) \<noteq> None"
  shows "\<exists>json r'. toJSON rt r = Inr json \<and> fromJSON rt nid' json = Inr r'
           \<and> title r' = title r \<and> description r' = description r
           \<and> priority r' = priority r \<and> category r' = category r
           \<and> isCompleted r' = isCompleted r \<and> dueDate r' = dueDate r"
proof -
  from created have ct: "check_title t = None"
    and cp: "check_priority (dflt (Str ''medium'') p) = None"
    and r: "r = \<lparr> id' = Str nid, title = t, description = dflt (Str []) d,
                dueDate = dflt Null due, priority = dflt (Str ''medium'') p,
                category = dflt (Str ''general'') c, isCompleted = Bool False,
                createdAt = PDT (now rt), completedAt = Null \<rparr>"
    by (simp_all add: Reminder_new_Inr)
  define dueS where "dueS = (case dflt Null due of PDT x \<Rightarrow> Str (pdt_toString rt x) | _ \<Rightarrow> Null)"
  define json where "json = Obj [(''id'', Str nid), (''title'', t),
      (''description'', dflt (Str []) d), (''dueDate'', dueS),
      (''priority'', dflt (Str ''medium'') p), (''category'', dflt (Str ''general'') c),
      (''isCompleted'', Bool False), (''createdAt'', Str (pdt_toString rt (now rt))),
      (''completedAt'', Null)]"
  have ser: "toJSON rt r = Inr json"
    using due by (auto simp: toJSON_Inr r json_def dueS_def dflt_def method_toString_def)
  have back_due: "(if truthy dueS then pdt_value rt dueS else Inr Null) = Inr (dflt Null due)"
    using due by (auto simp: dueS_def dflt_def pdt_value_def pdt_from_def then_ok_def)
  obtain cr where cr: "pdt_value rt (Str (pdt_toString rt (now rt))) = Inr (PDT cr)"
    using clock by (auto simp: pdt_value_def pdt_from_def then_ok_def)
  have new': "Reminder_new rt nid' t (dflt (Str []) d) Null (dflt (Str ''medium'') p)
       (dflt (Str ''general'') c)
     = Inr \<lparr> id' = Str nid', title = t, description = dflt (Str []) d,
                dueDate = Null, priority = dflt (Str ''medium'') p,
                category = dflt (Str ''general'') c, isCompleted = Bool False,
                createdAt = PDT (now rt), completedAt = Null \<rparr>"
    using ct cp by (simp add: Reminder_new_Inr dflt_idem) (simp add: dflt_def)
  have "fromJSON rt nid' json
     = Inr \<lparr> id' = Str nid, title = t, description = dflt (Str []) d,
                dueDate = dflt Null due, priority = dflt (Str ''medium'') p,
                category = dflt (Str ''general'') c, isCompleted = Bool False,
                createdAt = PDT cr, completedAt = Null \<rparr>"
    unfolding fromJSON_def json_def prop_of_record
    using new' back_due cr by (simp add: then_ok_simps)
  with ser show ?thesis by (simp add: r)
qed

theorem serialise_deserialise_roundtrip_witness:
  "\<exists>json r'. toJSON sample_runtime sample_reminder = Inr json
      \<and> fromJSON sample_runtime ''reminder_2'' json = Inr r'
      \<and> title r' = Str ''Test task'' \<and> description r' = Str ''Test description''
      \<and> priority r' = Str ''high'' \<and> category r' = Str ''work''
      \<and> isCompleted r' = Bool False \<and> dueDate r' = PDT 1798212600000000000"
proof -
  have due: "PDT 1798212600000000000 = Undefined \<or> PDT 1798212600000000000 = Null
      \<or> (\<exists>x. PDT 1798212600000000000 = PDT x \<and> pdt_toString sample_runtime x \<noteq> []
              \<and> pdt_parse sample_runtime (Str (pdt_toString sample_runtime x)) = Some x)"
    by (simp add: sample_runtime_strings)
  have clock: "pdt_parse sample_runtime (Str (pdt_toString sample_runtime (now sample_runtime)))
      \<noteq> None"
    by (simp add: sample_runtime_strings)
  from serialise_deserialise_roundtrip[OF sample_new due clock, of "''reminder_2''"]
  show ?thesis by (simp add: sample_reminder_def)
qed

section \<open>The text for the time until due\<close>

text \<open>The rounding to a double: it keeps a double, the sign and the order.\<close>

lemma binade_eq_iff:
  assumes "x \<noteq> 0"
  shows "(binade x = k) = (2 powi k \<le> \<bar>x\<bar> \<and> \<bar>x\<bar> < 2 powi (k + 1))"
proof -
  have "0 < \<bar>x\<bar>" using assms by simp
  from floor_log_eq_powr_iff[OF this, of 2 k] show ?thesis
    unfolding binade_def
    using powr_real_of_int'[of 2 k] powr_real_of_int'[of 2 "k + 1"] by simp
qed

lemma binade_bounds:
  assumes "x \<noteq> 0"
  shows "2 powi binade x \<le> \<bar>x\<bar>" "\<bar>x\<bar> < 2 powi (binade x + 1)"
  using binade_eq_iff[OF assms, of "binade x"] by simp_all

lemma binade_minus: "binade (- x) = binade x"
  by (simp add: binade_def)

lemma ulp_minus: "ulp (- x) = ulp x"
  by (simp add: ulp_def binade_minus)

lemma ulp_pos: "0 < ulp x"
  by (simp add: ulp_def)

lemma round_half_even_of_int: "round_half_even (of_int n) = n"
  by (simp add: round_half_even_def)

lemma round_half_even_range:
  "round_half_even y = \<lfloor>y\<rfloor> \<or> round_half_even y = \<lfloor>y\<rfloor> + 1"
  by (simp add: round_half_even_def Let_def)

lemma round_half_even_mono:
  assumes "y \<le> y'"
  shows "round_half_even y \<le> round_half_even y'"
proof (cases "\<lfloor>y\<rfloor> = \<lfloor>y'\<rfloor>")
  case True
  then show ?thesis using assms by (auto simp: round_half_even_def Let_def)
next
  case False
  then have "\<lfloor>y\<rfloor> + 1 \<le> \<lfloor>y'\<rfloor>" using floor_mono[OF assms] by linarith
  moreover have "round_half_even y \<le> \<lfloor>y\<rfloor> + 1"
    using round_half_even_range[of y] by linarith
  moreover have "\<lfloor>y'\<rfloor> \<le> round_half_even y'"
    using round_half_even_range[of y'] by linarith
  ultimately show ?thesis by linarith
qed

lemma round_half_even_minus: "round_half_even (- y) = - round_half_even y"
proof (cases "y = of_int \<lfloor>y\<rfloor>")
  case True
  then obtain n where "y = of_int n" by blast
  then show ?thesis
    by (simp add: round_half_even_of_int flip: of_int_minus)
next
  case False
  then have lt: "of_int \<lfloor>y\<rfloor> < y" using of_int_floor_le[of y] by linarith
  have "\<lfloor>- y\<rfloor> = - \<lfloor>y\<rfloor> - 1"
  proof (rule floor_unique)
    show "of_int (- \<lfloor>y\<rfloor> - 1) \<le> - y"
      using real_of_int_floor_add_one_ge[of y] by simp linarith
    show "- y < of_int (- \<lfloor>y\<rfloor> - 1) + 1"
      using lt by simp
  qed
  then show ?thesis
    by (auto simp: round_half_even_def Let_def)
qed

lemma to_double_minus: "to_double (- x) = - to_double x"
  by (simp add: to_double_def ulp_minus round_half_even_minus)

lemma to_double_nonneg:
  assumes "0 \<le> x"
  shows "0 \<le> to_double x"
proof (cases "x = 0")
  case True
  then show ?thesis by (simp add: to_double_def)
next
  case False
  have "0 \<le> x / ulp x" using assms ulp_pos[of x] by simp
  from round_half_even_mono[OF this] have "0 \<le> round_half_even (x / ulp x)"
    using round_half_even_of_int[of 0] by simp
  then show ?thesis using False ulp_pos[of x] by (simp add: to_double_def)
qed

text \<open>A number with a significand below \<open>2^53\<close> and an exponent in range is a double.\<close>

lemma to_double_exact:
  assumes "x = of_int m * 2 powi k" "\<bar>m\<bar> < 2 ^ 53" "- 1074 \<le> k"
  shows "to_double x = x"
proof (cases "x = 0")
  case True
  then show ?thesis by (simp add: to_double_def)
next
  case False
  define e where "e = max (binade x) (- 1022) - 52"
  have u: "ulp x = 2 powi e" by (simp add: ulp_def e_def)
  have "e \<le> k"
  proof (rule ccontr)
    assume "\<not> e \<le> k"
    then have k: "k < e" by simp
    then have "- 1022 < binade x" using assms(3) by (simp add: e_def)
    then have e: "e = binade x - 52" by (simp add: e_def)
    have "(2::real) powi (k + 53) \<le> 2 powi binade x"
      using k e by (intro power_int_increasing) simp_all
    also have "\<dots> \<le> \<bar>x\<bar>" by (rule binade_bounds(1)[OF False])
    also have "\<dots> = of_int \<bar>m\<bar> * 2 powi k" by (simp add: assms(1) abs_mult)
    also have "\<dots> < 2 ^ 53 * 2 powi k"
    proof -
      have "(of_int \<bar>m\<bar> :: real) < of_int (2 ^ 53)" using assms(2) by (simp only: of_int_less_iff)
      then show ?thesis by simp
    qed
    also have "\<dots> = 2 powi (k + 53)" by (simp add: power_int_add)
    finally show False by simp
  qed
  then obtain j :: nat where j: "k = e + int j" by (metis zle_iff_zadd)
  have q: "x / 2 powi e = of_int (m * 2 ^ j)"
    by (simp add: assms(1) j power_int_add)
  have r: "round_half_even (x / 2 powi e) = m * 2 ^ j"
    unfolding q by (rule round_half_even_of_int)
  have "to_double x = of_int (round_half_even (x / 2 powi e)) * 2 powi e"
    unfolding to_double_def u using False by simp
  also have "\<dots> = of_int (m * 2 ^ j) * 2 powi e" unfolding r ..
  also have "\<dots> = x" by (simp add: assms(1) j power_int_add)
  finally show ?thesis .
qed

lemma to_double_of_int:
  assumes "\<bar>n\<bar> \<le> 2 ^ 53"
  shows "to_double (of_int n) = of_int n"
proof (cases "\<bar>n\<bar> = 2 ^ 53")
  case True
  then have "n = 2 ^ 52 * 2 \<or> n = - (2 ^ 52) * 2" by auto
  then have "of_int n = of_int (n div 2) * (2::real) powi 1" "\<bar>n div 2\<bar> < 2 ^ 53"
    by auto
  then show ?thesis by (intro to_double_exact[where m = "n div 2" and k = 1]) simp_all
next
  case False
  then have "\<bar>n\<bar> < 2 ^ 53" using assms by simp
  then show ?thesis using to_double_exact[of "of_int n" n 0] by simp
qed

lemma to_double_mono_pos:
  assumes "0 < x" "x \<le> y"
  shows "to_double x \<le> to_double y"
proof (cases "ulp x = ulp y")
  case True
  have "x / ulp y \<le> y / ulp y" using assms ulp_pos[of y] by (simp add: divide_right_mono)
  from round_half_even_mono[OF this] show ?thesis
    using assms ulp_pos[of y] True by (simp add: to_double_def)
next
  case False
  have nz: "x \<noteq> 0" "y \<noteq> 0" using assms by simp_all
  have bxy: "binade x \<le> binade y"
  proof (rule ccontr)
    assume "\<not> binade x \<le> binade y"
    then have "binade y + 1 \<le> binade x" by simp
    then have "(2::real) powi (binade y + 1) \<le> 2 powi binade x"
      by (intro power_int_increasing) simp_all
    with binade_bounds(1)[OF nz(1)] binade_bounds(2)[OF nz(2)] assms show False by simp
  qed
  define k where "k = binade y"
  define ex where "ex = max (binade x) (- 1022)"
  have ne: "max (binade x) (- 1022) \<noteq> max (binade y) (- 1022)"
    using False by (auto simp: ulp_def)
  then have ky: "- 1022 < k" and exk: "ex < k" using bxy by (auto simp: k_def ex_def)
  have ux: "ulp x = 2 powi (ex - 52)" by (simp add: ulp_def ex_def)
  have uy: "ulp y = 2 powi (k - 52)" using ky by (simp add: ulp_def k_def)
  have bx: "binade x < k" using exk by (simp add: ex_def)
  have xk: "x < 2 powi k"
  proof -
    have "x < 2 powi (binade x + 1)" using binade_bounds(2)[OF nz(1)] assms by simp
    also have "\<dots> \<le> 2 powi k" using bx by (intro power_int_increasing) simp_all
    finally show ?thesis .
  qed
  have yk: "2 powi k \<le> y" using binade_bounds(1)[OF nz(2)] assms by (simp add: k_def)
  obtain i :: nat where i: "k = (ex - 52) + int i"
    using exk by (metis zle_iff_zadd add.commute add_le_cancel_left diff_le_eq less_imp_le
        le_add_same_cancel2 zero_le_numeral order_trans)
  have "x / ulp x \<le> 2 powi k / ulp x" using xk ulp_pos[of x] by (simp add: divide_right_mono)
  also have "\<dots> = of_int (2 ^ i)" by (simp add: ux i power_int_add)
  finally have "round_half_even (x / ulp x) \<le> 2 ^ i"
    using round_half_even_mono[of "x / ulp x" "of_int (2 ^ i)"]
    by (simp only: round_half_even_of_int)
  then have "of_int (round_half_even (x / ulp x)) * ulp x \<le> of_int (2 ^ i) * ulp x"
    using ulp_pos[of x] by (simp only: mult_le_cancel_right_pos of_int_le_iff)
  also have "\<dots> = 2 powi k" by (simp add: ux i power_int_add)
  finally have lo: "to_double x \<le> 2 powi k" using nz by (simp add: to_double_def)
  have "of_int (2 ^ 52) = 2 powi k / ulp y" by (simp add: uy power_int_diff)
  also have "\<dots> \<le> y / ulp y" using yk ulp_pos[of y] by (simp add: divide_right_mono)
  finally have "2 ^ 52 \<le> round_half_even (y / ulp y)"
    using round_half_even_mono[of "of_int (2 ^ 52)" "y / ulp y"]
    by (simp only: round_half_even_of_int)
  then have "of_int (2 ^ 52) * ulp y \<le> of_int (round_half_even (y / ulp y)) * ulp y"
    using ulp_pos[of y] by (simp only: mult_le_cancel_right_pos of_int_le_iff)
  moreover have "of_int (2 ^ 52) * ulp y = 2 powi k" by (simp add: uy power_int_diff)
  ultimately have hi: "2 powi k \<le> to_double y" using nz by (simp add: to_double_def)
  from lo hi show ?thesis by simp
qed

lemma to_double_mono:
  assumes "x \<le> y"
  shows "to_double x \<le> to_double y"
proof -
  consider "0 < x" | "x \<le> 0" "0 \<le> y" | "y < 0" by linarith
  then show ?thesis
  proof cases
    case 1
    then show ?thesis using assms by (rule to_double_mono_pos)
  next
    case 2
    have "to_double x \<le> 0" using to_double_nonneg[of "- x"] 2 by (simp add: to_double_minus)
    moreover have "0 \<le> to_double y" using 2 by (intro to_double_nonneg)
    ultimately show ?thesis by simp
  next
    case 3
    then have "to_double (- y) \<le> to_double (- x)" using assms by (intro to_double_mono_pos) simp_all
    then show ?thesis by (simp add: to_double_minus)
  qed
qed

lemma floor_or_next:
  assumes "of_int n \<le> x" "x \<le> of_int n + 1"
  shows "\<lfloor>x\<rfloor> = n \<or> (\<lfloor>x\<rfloor> = n + 1 \<and> x = of_int (n + 1))"
proof (cases "x = of_int n + 1")
  case True
  then have "x = of_int (n + 1)" by simp
  then show ?thesis by (simp only: floor_of_int) simp
next
  case False
  then have "x < of_int n + 1" using assms(2) by simp
  then have "\<lfloor>x\<rfloor> = n" using assms(1) by (intro floor_unique) simp_all
  then show ?thesis by simp
qed

lemma div_bounds:
  assumes "0 < (b::int)"
  shows "a div b * b \<le> a" "a \<le> (a div b + 1) * b"
proof -
  have e: "a div b * b + a mod b = a" by (rule div_mult_mod_eq)
  have m: "0 \<le> a mod b" "a mod b < b" using assms by simp_all
  show "a div b * b \<le> a" using e m(1) by linarith
  have "(a div b + 1) * b = a div b * b + b" by (simp add: algebra_simps)
  then show "a \<le> (a div b + 1) * b" using e m(2) by linarith
qed

lemma cancel_pos:
  assumes "0 < (c::int)" "a * c \<le> b * c"
  shows "a \<le> b"
  using assms by (simp add: mult_le_cancel_right)

lemma one_hour_pos: "0 < one_hour" by (simp add: one_hour_def)

lemma one_day_hours: "one_day = 24 * one_hour" by (simp add: one_day_def one_hour_def)

lemma total_between:
  assumes law: "total_law rt" and lo: "k * one_hour \<le> ns" and hi: "ns \<le> k' * one_hour"
    and k: "\<bar>k\<bar> \<le> 2 ^ 53" and k': "\<bar>k'\<bar> \<le> 2 ^ 53"
  shows "of_int k \<le> total_hours rt ns" "total_hours rt ns \<le> of_int k'"
proof -
  from law have mono: "\<And>a b. a \<le> b \<Longrightarrow> total_hours rt a \<le> total_hours rt b"
    and exact: "\<And>j. \<bar>j\<bar> \<le> 2 ^ 53 \<Longrightarrow> total_hours rt (j * one_hour) = of_int j"
    by (simp_all add: total_law_def)
  show "of_int k \<le> total_hours rt ns" using mono[OF lo] exact[OF k] by simp
  show "total_hours rt ns \<le> of_int k'" using mono[OF hi] exact[OF k'] by simp
qed

lemma whole_hours_bounds:
  assumes law: "total_law rt" and range: "\<bar>ns\<bar> \<le> 2 ^ 52 * one_hour"
  shows "whole_hours rt ns = ns div one_hour
     \<or> (whole_hours rt ns = ns div one_hour + 1
        \<and> total_hours rt ns = of_int (ns div one_hour + 1))"
proof -
  define n where "n = ns div one_hour"
  have lo: "n * one_hour \<le> ns" and hi: "ns \<le> (n + 1) * one_hour"
    unfolding n_def by (rule div_bounds[OF one_hour_pos])+
  have "n * one_hour \<le> 2 ^ 52 * one_hour" using lo range by linarith
  then have n1: "n \<le> 2 ^ 52" by (rule cancel_pos[OF one_hour_pos])
  have "- (2 ^ 52) * one_hour \<le> (n + 1) * one_hour" using hi range by linarith
  then have n2: "- (2 ^ 52) \<le> n + 1" by (rule cancel_pos[OF one_hour_pos])
  have k: "\<bar>n\<bar> \<le> 2 ^ 53" "\<bar>n + 1\<bar> \<le> 2 ^ 53" using n1 n2 by simp_all
  from total_between[OF law lo hi k]
  have "of_int n \<le> total_hours rt ns" "total_hours rt ns \<le> of_int n + 1" by simp_all
  from floor_or_next[OF this] show ?thesis by (simp add: whole_hours_def n_def)
qed

lemma whole_days_bounds:
  assumes law: "total_law rt" and range: "\<bar>ns\<bar> \<le> 2 ^ 52 * one_hour"
  shows "whole_days rt ns = ns div one_day
     \<or> (whole_days rt ns = ns div one_day + 1
        \<and> number_div (total_hours rt ns) 24 = of_int (ns div one_day + 1))"
proof -
  define d where "d = ns div one_day"
  have day: "0 < one_day" using one_hour_pos by (simp add: one_day_hours)
  have "d * one_day \<le> ns" and "ns \<le> (d + 1) * one_day"
    unfolding d_def by (rule div_bounds[OF day])+
  moreover have "d * one_day = (24 * d) * one_hour"
    "(d + 1) * one_day = (24 * (d + 1)) * one_hour"
    by (simp_all add: one_day_hours)
  ultimately have lo: "(24 * d) * one_hour \<le> ns" and hi: "ns \<le> (24 * (d + 1)) * one_hour"
    by simp_all
  have "(24 * d) * one_hour \<le> 2 ^ 52 * one_hour" using lo range by linarith
  then have d1: "24 * d \<le> 2 ^ 52" by (rule cancel_pos[OF one_hour_pos])
  have "- (2 ^ 52) * one_hour \<le> (24 * (d + 1)) * one_hour" using hi range by linarith
  then have d2: "- (2 ^ 52) \<le> 24 * (d + 1)" by (rule cancel_pos[OF one_hour_pos])
  have k: "\<bar>24 * d\<bar> \<le> 2 ^ 53" "\<bar>24 * (d + 1)\<bar> \<le> 2 ^ 53" using d1 d2 by simp_all
  from total_between[OF law lo hi k]
  have q: "of_int d \<le> total_hours rt ns / 24" "total_hours rt ns / 24 \<le> of_int (d + 1)"
    by simp_all
  have b: "\<bar>d\<bar> \<le> 2 ^ 53" "\<bar>d + 1\<bar> \<le> 2 ^ 53" using d1 d2 by simp_all
  have e: "to_double (of_int d) = of_int d" "to_double (of_int (d + 1)) = of_int (d + 1)"
    by (rule to_double_of_int[OF b(1)], rule to_double_of_int[OF b(2)])
  have "to_double (of_int d) \<le> number_div (total_hours rt ns) 24"
    "number_div (total_hours rt ns) 24 \<le> to_double (of_int (d + 1))"
    unfolding number_div_def by (rule to_double_mono[OF q(1)], rule to_double_mono[OF q(2)])
  then have "of_int d \<le> number_div (total_hours rt ns) 24"
    "number_div (total_hours rt ns) 24 \<le> of_int d + 1"
    unfolding e by simp_all
  from floor_or_next[OF this] show ?thesis by (simp add: whole_days_def d_def)
qed

lemma formatted_duration:
  "timeUntilDueFormatted rt (r\<lparr> dueDate := PDT d \<rparr>)
     = Inr (due_text (d - now rt) (whole_hours rt (d - now rt)) (whole_days rt (d - now rt)))"
  by (simp add: timeUntilDueFormatted_def timeUntilDue_def then_ok_simps Let_def due_text_def
      whole_hours_def whole_days_def)

lemma formatted_none:
  "\<not> truthy v \<Longrightarrow> timeUntilDueFormatted rt (r\<lparr> dueDate := v \<rparr>) = Inr ''No due date''"
  by (simp add: timeUntilDueFormatted_def timeUntilDue_def then_ok_simps)

lemma formatted_other:
  assumes "truthy v" "\<forall>d. v \<noteq> PDT d"
  shows "timeUntilDueFormatted rt (r\<lparr> dueDate := v \<rparr>) = Inl TypeError"
  using assms
  by (cases v) (simp_all add: timeUntilDueFormatted_def timeUntilDue_def then_ok_simps)

text \<open>The sample runtime: its total of hours obeys the law, and its values at the samples.\<close>

lemma nearest_hours_law: "total_law sample_runtime"
proof -
  have "nearest_hours a \<le> nearest_hours b" if "a \<le> b" for a b
    unfolding nearest_hours_def using that one_hour_pos
    by (intro to_double_mono divide_right_mono) simp_all
  moreover have "nearest_hours (k * one_hour) = of_int k" if "\<bar>k\<bar> \<le> 2 ^ 53" for k
    using that one_hour_pos by (simp add: nearest_hours_def to_double_of_int)
  ultimately show ?thesis by (simp add: total_law_def sample_runtime_def)
qed

lemma sample_total_hours:
  "total_hours sample_runtime (- 129600000000000) = - 36"
  "total_hours sample_runtime 49433400000000000 = 27463 / 2"
proof -
  have "to_double (of_int (- 36)) = of_int (- 36)" by (rule to_double_of_int) simp
  then show "total_hours sample_runtime (- 129600000000000) = - 36"
    by (simp add: sample_runtime_def nearest_hours_def one_hour_def)
  have "to_double (27463 / 2) = 27463 / 2"
    by (rule to_double_exact[where m = 27463 and k = "- 1"]) simp_all
  then show "total_hours sample_runtime 49433400000000000 = 27463 / 2"
    by (simp add: sample_runtime_def nearest_hours_def one_hour_def)
qed

lemma sample_whole_days:
  "whole_days sample_runtime (- 129600000000000) = - 2"
  "whole_days sample_runtime 49433400000000000 = 572"
proof -
  have "to_double (- 3 / 2) = - 3 / 2"
    by (rule to_double_exact[where m = "- 3" and k = "- 1"]) simp_all
  then show "whole_days sample_runtime (- 129600000000000) = - 2"
    by (simp add: whole_days_def sample_total_hours number_div_def)
  have "to_double (of_int 572) \<le> to_double (27463 / 48)"
    "to_double (27463 / 48) \<le> to_double (1145 / 2)"
    by (rule to_double_mono, simp)+
  moreover have "to_double (of_int 572) = of_int 572" by (rule to_double_of_int) simp
  moreover have "to_double (1145 / 2) = 1145 / 2"
    by (rule to_double_exact[where m = 1145 and k = "- 1"]) simp_all
  ultimately have "572 \<le> to_double (27463 / 48)" "to_double (27463 / 48) < 573" by simp_all
  then have "\<lfloor>to_double (27463 / 48)\<rfloor> = 572" by (intro floor_unique) simp_all
  then show "whole_days sample_runtime 49433400000000000 = 572"
    by (simp add: whole_days_def sample_total_hours number_div_def)
qed

lemma sample_whole_hours:
  "whole_hours sample_runtime (- 129600000000000) = - 36"
  "whole_hours sample_runtime 49433400000000000 = 13731"
  by (simp_all add: whole_hours_def sample_total_hours)

text \<open>One nanosecond short of 200 days, the total of hours is rounded to 4800.\<close>

lemma carried_total:
  "to_double (17279999999999999 / 3600000000000) = 4800"
proof -
  have "(2::real) powi 12 \<le> \<bar>17279999999999999 / 3600000000000\<bar>"
    by simp
  moreover have "\<bar>17279999999999999 / 3600000000000\<bar> < (2::real) powi (12 + 1)"
    by simp
  moreover have "(17279999999999999 / 3600000000000 :: real) \<noteq> 0" by simp
  ultimately have b: "binade (17279999999999999 / 3600000000000) = 12"
    using binade_eq_iff[of "17279999999999999 / 3600000000000" 12] by blast
  have u: "ulp (17279999999999999 / 3600000000000) = 1 / 2 ^ 40"
    by (simp add: ulp_def b power_int_minus)
  show ?thesis
    by (simp add: to_double_def u round_half_even_def Let_def)
qed

lemma carried_whole:
  "whole_hours sample_runtime 17279999999999999 = 4800"
  "whole_days sample_runtime 17279999999999999 = 200"
proof -
  have t: "total_hours sample_runtime 17279999999999999 = 4800"
    using carried_total by (simp add: sample_runtime_def nearest_hours_def one_hour_def)
  show "whole_hours sample_runtime 17279999999999999 = 4800"
    by (simp add: whole_hours_def t)
  have "to_double (of_int 200) = of_int 200" by (rule to_double_of_int) simp
  then show "whole_days sample_runtime 17279999999999999 = 200"
    by (simp add: whole_days_def t number_div_def)
qed

lemma sample_durations:
  "1748649600000000000 - now sample_runtime = - 129600000000000"
  "1798212600000000000 - now sample_runtime = 49433400000000000"
  "1766059199999999999 - now sample_runtime = 17279999999999999"
  by (simp_all add: sample_runtime_def)

lemma sample_string_due:
  "Reminder_new sample_runtime ''reminder_1'' (Str ''Test task'') (Str ''Test description'')
     (Str ''2026-12-25T15:30:00'') (Str ''high'') (Str ''work'') = Inr string_due_reminder"
  by (simp add: Reminder_new_def check_title_def check_priority_def validPriorities_def dflt_def
      trim_def is_space_def sample_runtime_def sample_reminder_def string_due_reminder_def)

text \<open>
  Claim C8, as stated, fails.  An entity 36 hours past its due date reads
  \<open>2 days overdue\<close>; the floor of the absolute value of one and a half days is one.  And an
  entity whose due date was given as an ISO string, which the constructor stores as it is,
  has a due date and no text: the call throws a \<open>TypeError\<close>.
\<close>

theorem overdue_text_not_floored_absolute:
  "timeUntilDueFormatted sample_runtime overdue_reminder = Inr ''2 days overdue''
   \<and> floored_absolute (1748649600000000000 - now sample_runtime) = ''1 days overdue''
   \<and> Reminder_new sample_runtime ''reminder_1'' (Str ''Test task'') (Str ''Test description'')
        (Str ''2026-12-25T15:30:00'') (Str ''high'') (Str ''work'') = Inr string_due_reminder
   \<and> timeUntilDueFormatted sample_runtime string_due_reminder = Inl TypeError"
proof -
  have "timeUntilDueFormatted sample_runtime overdue_reminder = Inr ''2 days overdue''"
    unfolding overdue_reminder_def formatted_duration sample_durations
    by (simp add: due_text_def sample_whole_days sample_whole_hours number_string_def)
  moreover have "floored_absolute (1748649600000000000 - now sample_runtime) = ''1 days overdue''"
    unfolding sample_durations
    by (simp add: floored_absolute_def one_day_def number_string_def)
  moreover have "timeUntilDueFormatted sample_runtime string_due_reminder = Inl TypeError"
    unfolding string_due_reminder_def by (rule formatted_other) simp_all
  ultimately show ?thesis using sample_string_due by simp
qed

text \<open>
  Claim C8, amended.  With a due date that is falsy (\<open>null\<close>, the default) the text is
  \<open>No due date\<close>.  With a due date that is neither falsy nor a \<open>PlainDateTime\<close> (of the values
  of the model: a non-empty string such as an ISO date, a number other than zero, \<open>true\<close>,
  an array or a plain record, none of which has a method \<open>since\<close>) the call throws a
  \<open>TypeError\<close>.  With a due date that is a \<open>PlainDateTime\<close>, let \<open>h\<close>
  be the number that \<open>total('hours')\<close> returns for the signed time until due, \<open>H\<close> its floor,
  and \<open>D\<close> the floor of \<open>h / 24\<close> as the language divides, in double precision.  For a due
  date not in the past the text is \<open>D days remaining\<close> when \<open>D \<ge> 1\<close> and \<open>H hours remaining\<close>
  otherwise; for a due date in the past it is \<open>\<bar>D\<bar> days overdue\<close> when \<open>D < -1\<close> and
  \<open>\<bar>H\<bar> hours overdue\<close> otherwise.  So the number shown for a past due date is the absolute
  value of a floor of the negative duration, not the floor of its absolute value.  When the
  total of the library is monotone in the duration and exact on whole hours, and the
  duration is at most \<open>2^52\<close> hours either way, \<open>H\<close> and \<open>D\<close> are the floors of the exact
  signed duration in hours and in days, or one more than these where the rounding to a double
  has carried the number up to exactly the next whole number.
\<close>

theorem due_text_by_duration:
  "(\<not> truthy v \<longrightarrow> timeUntilDueFormatted rt (r\<lparr> dueDate := v \<rparr>) = Inr ''No due date'')
   \<and> (truthy v \<and> (\<forall>d. v \<noteq> PDT d)
        \<longrightarrow> timeUntilDueFormatted rt (r\<lparr> dueDate := v \<rparr>) = Inl TypeError)
   \<and> timeUntilDueFormatted rt (r\<lparr> dueDate := PDT d \<rparr>)
        = Inr (due_text (d - now rt) (whole_hours rt (d - now rt)) (whole_days rt (d - now rt)))
   \<and> (total_law rt \<and> \<bar>d - now rt\<bar> \<le> 2 ^ 52 * one_hour \<longrightarrow>
        (whole_hours rt (d - now rt) = (d - now rt) div one_hour
         \<or> (whole_hours rt (d - now rt) = (d - now rt) div one_hour + 1
            \<and> total_hours rt (d - now rt) = of_int ((d - now rt) div one_hour + 1)))
        \<and> (whole_days rt (d - now rt) = (d - now rt) div one_day
           \<or> (whole_days rt (d - now rt) = (d - now rt) div one_day + 1
              \<and> number_div (total_hours rt (d - now rt)) 24
                  = of_int ((d - now rt) div one_day + 1))))"
proof (intro conjI impI)
  assume "\<not> truthy v"
  then show "timeUntilDueFormatted rt (r\<lparr> dueDate := v \<rparr>) = Inr ''No due date''"
    by (rule formatted_none)
next
  assume "truthy v \<and> (\<forall>d. v \<noteq> PDT d)"
  then show "timeUntilDueFormatted rt (r\<lparr> dueDate := v \<rparr>) = Inl TypeError"
    by (intro formatted_other) simp_all
next
  show "timeUntilDueFormatted rt (r\<lparr> dueDate := PDT d \<rparr>)
      = Inr (due_text (d - now rt) (whole_hours rt (d - now rt)) (whole_days rt (d - now rt)))"
    by (rule formatted_duration)
next
  assume "total_law rt \<and> \<bar>d - now rt\<bar> \<le> 2 ^ 52 * one_hour"
  then show "whole_hours rt (d - now rt) = (d - now rt) div one_hour
         \<or> (whole_hours rt (d - now rt) = (d - now rt) div one_hour + 1
            \<and> total_hours rt (d - now rt) = of_int ((d - now rt) div one_hour + 1))"
    by (intro whole_hours_bounds) simp_all
next
  assume "total_law rt \<and> \<bar>d - now rt\<bar> \<le> 2 ^ 52 * one_hour"
  then show "whole_days rt (d - now rt) = (d - now rt) div one_day
           \<or> (whole_days rt (d - now rt) = (d - now rt) div one_day + 1
              \<and> number_div (total_hours rt (d - now rt)) 24
                  = of_int ((d - now rt) div one_day + 1))"
    by (intro whole_days_bounds) simp_all
qed

theorem due_text_by_duration_witness:
  "timeUntilDueFormatted sample_runtime (sample_reminder\<lparr> dueDate := Null \<rparr>)
     = Inr ''No due date''
   \<and> timeUntilDueFormatted sample_runtime
       (sample_reminder\<lparr> dueDate := Str ''2026-12-25T15:30:00'' \<rparr>) = Inl TypeError
   \<and> timeUntilDueFormatted sample_runtime
       (sample_reminder\<lparr> dueDate := PDT 1798212600000000000 \<rparr>) = Inr ''572 days remaining''
   \<and> whole_hours sample_runtime 49433400000000000 = 49433400000000000 div one_hour
   \<and> whole_days sample_runtime 49433400000000000 = 49433400000000000 div one_day
   \<and> timeUntilDueFormatted sample_runtime
       (sample_reminder\<lparr> dueDate := PDT 1766059199999999999 \<rparr>) = Inr ''200 days remaining''
   \<and> whole_days sample_runtime 17279999999999999 = 17279999999999999 div one_day + 1
   \<and> number_div (total_hours sample_runtime 17279999999999999) 24 = 200"
proof -
  have range: "total_law sample_runtime
      \<and> \<bar>1798212600000000000 - now sample_runtime\<bar> \<le> 2 ^ 52 * one_hour"
    by (simp add: nearest_hours_law sample_durations one_hour_def)
  have range': "total_law sample_runtime
      \<and> \<bar>1766059199999999999 - now sample_runtime\<bar> \<le> 2 ^ 52 * one_hour"
    by (simp add: nearest_hours_law sample_durations one_hour_def)
  have none: "timeUntilDueFormatted sample_runtime (sample_reminder\<lparr> dueDate := Null \<rparr>)
      = Inr ''No due date''"
    using due_text_by_duration[of Null sample_runtime sample_reminder] by simp
  have other: "timeUntilDueFormatted sample_runtime
       (sample_reminder\<lparr> dueDate := Str ''2026-12-25T15:30:00'' \<rparr>) = Inl TypeError"
    using due_text_by_duration[of "Str ''2026-12-25T15:30:00''" sample_runtime sample_reminder]
    by simp
  note at_sample = due_text_by_duration[of Null sample_runtime sample_reminder
      1798212600000000000]
  have shown: "timeUntilDueFormatted sample_runtime
       (sample_reminder\<lparr> dueDate := PDT 1798212600000000000 \<rparr>) = Inr ''572 days remaining''"
    using at_sample unfolding sample_durations
    by (simp add: due_text_def sample_whole_days sample_whole_hours number_string_def)
  have bounds: "whole_hours sample_runtime 49433400000000000 = 49433400000000000 div one_hour
      \<and> whole_days sample_runtime 49433400000000000 = 49433400000000000 div one_day"
    using at_sample range unfolding sample_durations
    by (simp add: sample_whole_days sample_whole_hours one_hour_def one_day_def)
  note at_carried = due_text_by_duration[of Null sample_runtime sample_reminder
      1766059199999999999]
  have shown': "timeUntilDueFormatted sample_runtime
       (sample_reminder\<lparr> dueDate := PDT 1766059199999999999 \<rparr>) = Inr ''200 days remaining''"
    using at_carried unfolding sample_durations
    by (simp add: due_text_def carried_whole number_string_def)
  have carried: "whole_days sample_runtime 17279999999999999 = 17279999999999999 div one_day + 1
      \<and> number_div (total_hours sample_runtime 17279999999999999) 24 = 200"
  proof -
    from at_carried range' have "whole_days sample_runtime 17279999999999999
          = 17279999999999999 div one_day
        \<or> (whole_days sample_runtime 17279999999999999 = 17279999999999999 div one_day + 1
           \<and> number_div (total_hours sample_runtime 17279999999999999) 24
               = of_int (17279999999999999 div one_day + 1))"
      unfolding sample_durations by blast
    then show ?thesis by (simp add: carried_whole(2) one_day_def)
  qed
  from none other shown bounds shown' carried show ?thesis by simp
qed

section \<open>Search\<close>

lemma includes_str_sublist: "includes_str s t = sublist t s"
  by (induction s) (auto simp: sublist_Cons_right)

lemma sublist_map_iff:
  "sublist (map f q) (map f s) = (\<exists>u. sublist u s \<and> map f u = map f q)"
proof
  assume "sublist (map f q) (map f s)"
  then obtain u where "sublist u s" "map f q = map f u" by (rule sublist_map_rightE[THEN exE]) blast
  then show "\<exists>u. sublist u s \<and> map f u = map f q" by auto
next
  assume "\<exists>u. sublist u s \<and> map f u = map f q"
  then obtain u ps ss where "s = ps @ u @ ss" "map f u = map f q" by (auto simp: sublist_def)
  then have "map f s = map f ps @ map f q @ map f ss" by simp
  then show "sublist (map f q) (map f s)" by (metis sublist_appendI)
qed

lemma lowered_cases:
  "lowered rt v = (if is_Str v then Inr (toLowerCase rt (str_of v)) else Inl TypeError)"
  by (cases v) (simp_all add: lowered_def is_Str_def str_of_def)

lemma matches_cases:
  "matches rt (toLowerCase rt q) r =
     (if unsearchable rt q r then Inl TypeError
      else Inr (lower_contains rt (title r) q \<or> lower_contains rt (description r) q))"
  by (simp add: matches_def lowered_cases then_ok_simps unsearchable_def lower_contains_def
      includes_str_sublist)

lemma filter_ok_cases:
  assumes "\<And>x. p x = (if U x then Inl e else Inr (P x))"
  shows "filter_ok p xs = (if \<exists>x\<in>set xs. U x then Inl e else Inr (filter P xs))"
  by (induction xs) (simp_all add: assms)

lemma search_characterised:
  "ReminderManager_search rt q m =
     (if q = [] then Inr []
      else if \<exists>r\<in>set (reminders m). unsearchable rt q r then Inl TypeError
      else Inr (filter (\<lambda>r. lower_contains rt (title r) q \<or> lower_contains rt (description r) q)
                  (reminders m)))"
  unfolding ReminderManager_search_def
  by (simp add: filter_ok_cases[of "matches rt (toLowerCase rt q)", OF matches_cases])

lemma search_same_lower:
  assumes "q \<noteq> []" "q' \<noteq> []" "toLowerCase rt q = toLowerCase rt q'"
  shows "ReminderManager_search rt q m = ReminderManager_search rt q' m"
  using assms by (simp add: ReminderManager_search_def)

lemma lower_contains_unitwise:
  assumes "toLowerCase rt q = map f q" "toLowerCase rt s = map f s"
  shows "lower_contains rt (Str s) q = ci_contains f s q"
  using assms
  by (simp add: lower_contains_def is_Str_def str_of_def ci_contains_def sublist_map_iff)

lemma sample_lower:
  "toLowerCase sample_runtime ''MEETING'' = ''meeting''"
  "toLowerCase sample_runtime ''meeting'' = ''meeting''"
  "toLowerCase sample_runtime ''Work meeting'' = ''work meeting''"
  "toLowerCase sample_runtime ''Weekly team sync'' = ''weekly team sync''"
  "toLowerCase sample_runtime ''Buy groceries'' = ''buy groceries''"
  "toLowerCase sample_runtime ''Milk, bread, eggs'' = ''milk, bread, eggs''"
  "toLowerCase sample_runtime ''Call mom'' = ''call mom''"
  "toLowerCase sample_runtime ''milk'' = ''milk''"
  "toLowerCase sample_runtime [] = []"
proof -
  have l: "toLowerCase sample_runtime = map lower_char" by (simp add: sample_runtime_def)
  show "toLowerCase sample_runtime ''MEETING'' = ''meeting''" unfolding l by code_simp
  show "toLowerCase sample_runtime ''meeting'' = ''meeting''" unfolding l by code_simp
  show "toLowerCase sample_runtime ''Work meeting'' = ''work meeting''" unfolding l by code_simp
  show "toLowerCase sample_runtime ''Weekly team sync'' = ''weekly team sync''"
    unfolding l by code_simp
  show "toLowerCase sample_runtime ''Buy groceries'' = ''buy groceries''"
    unfolding l by code_simp
  show "toLowerCase sample_runtime ''Milk, bread, eggs'' = ''milk, bread, eggs''"
    unfolding l by code_simp
  show "toLowerCase sample_runtime ''Call mom'' = ''call mom''" unfolding l by code_simp
  show "toLowerCase sample_runtime ''milk'' = ''milk''" unfolding l by code_simp
  show "toLowerCase sample_runtime [] = []" unfolding l by simp
qed

lemma sample_add_undescribed:
  "ReminderManager_add sample_runtime ''reminder_7'' (Val undescribed) sample_manager sample_store
   = (Inr (call_mom\<lparr> id' := Str ''reminder_7'', description := Null, priority := Str ''medium'',
                        category := Str ''general'' \<rparr>),
      sample_manager\<lparr> reminders :=
        [call_mom\<lparr> id' := Str ''reminder_7'', description := Null, priority := Str ''medium'',
                   category := Str ''general'' \<rparr>] \<rparr>,
      ReminderManager_save sample_runtime
        (sample_manager\<lparr> reminders :=
          [call_mom\<lparr> id' := Str ''reminder_7'', description := Null,
                     priority := Str ''medium'', category := Str ''general'' \<rparr>] \<rparr>)
        sample_store)"
  by (simp add: ReminderManager_add_def entity_of_def undescribed_def Reminder_new_def
      check_title_def check_priority_def validPriorities_def dflt_def trim_def is_space_def
      sample_manager_def call_mom_def sample_runtime_def Let_def)

text \<open>
  Claim C9, as stated, fails.  \<open>add\<close> accepts a plain record whose description is \<open>null\<close>
  and keeps the \<open>null\<close>; a search of the collection for a query that the title does not
  contain then throws a \<open>TypeError\<close> and returns no result set.
\<close>

theorem search_throws_on_null_description:
  "fst (ReminderManager_add sample_runtime ''reminder_7'' (Val undescribed)
       sample_manager sample_store)
     = Inr (call_mom\<lparr> id' := Str ''reminder_7'', description := Null,
                       priority := Str ''medium'', category := Str ''general'' \<rparr>)
   \<and> ReminderManager_search sample_runtime ''milk''
       (fst (snd (ReminderManager_add sample_runtime ''reminder_7'' (Val undescribed)
          sample_manager sample_store))) = Inl TypeError"
  unfolding sample_add_undescribed
  by (simp add: ReminderManager_search_def matches_def lowered_def then_ok_def sample_lower
      call_mom_def)

text \<open>
  Claim C9, amended.  For the empty query \<open>search\<close> returns no entity.  For any other query
  string it throws a \<open>TypeError\<close> when the collection holds an entity whose title is not a
  string, or whose title does not contain the query in lower case and whose description is
  not a string (of the values of the model: \<open>undefined\<close>, \<open>null\<close>, a boolean, a number, a
  \<open>PlainDateTime\<close>, an array or a plain record, none of which has a method \<open>toLowerCase\<close>;
  \<open>add\<close> accepts a record with any description); otherwise it returns
  exactly the entities, in their stored order, whose title or description has a lower-case
  form that contains the lower-case form of the query, both as \<open>toLowerCase\<close> gives them.
  Two non-empty queries with the same lower-case form give the same outcome.  Where
  \<open>toLowerCase\<close> maps a string and the query code unit by code unit, a string contains the
  query in lower case exactly when some contiguous part of it equals the query up to that
  mapping, that is, up to letter case.
\<close>

theorem search_case_insensitive_substring:
  "ReminderManager_search rt q m =
     (if q = [] then Inr []
      else if \<exists>r\<in>set (reminders m). unsearchable rt q r then Inl TypeError
      else Inr (filter (\<lambda>r. lower_contains rt (title r) q \<or> lower_contains rt (description r) q)
                  (reminders m)))
   \<and> (q \<noteq> [] \<and> q' \<noteq> [] \<and> toLowerCase rt q = toLowerCase rt q'
        \<longrightarrow> ReminderManager_search rt q m = ReminderManager_search rt q' m)
   \<and> (toLowerCase rt q = map f q \<and> toLowerCase rt s = map f s
        \<longrightarrow> lower_contains rt (Str s) q = ci_contains f s q)"
  using search_characterised[of rt q m] search_same_lower[of q q' rt m]
    lower_contains_unitwise[of rt q f s]
  by blast

theorem search_case_insensitive_substring_witness:
  "ReminderManager_search sample_runtime ''MEETING'' sample_collection = Inr [work_meeting]
   \<and> ReminderManager_search sample_runtime ''MEETING'' sample_collection
       = ReminderManager_search sample_runtime ''meeting'' sample_collection
   \<and> ReminderManager_search sample_runtime [] sample_collection = Inr []
   \<and> ReminderManager_search sample_runtime ''milk''
       (sample_collection\<lparr> reminders := [call_mom\<lparr> description := Null \<rparr>] \<rparr>) = Inl TypeError
   \<and> lower_contains sample_runtime (Str ''Work meeting'') ''MEETING''
       = ci_contains lower_char ''Work meeting'' ''MEETING''"
proof -
  note inst = search_case_insensitive_substring[of sample_runtime _ sample_collection]
  have lower: "''MEETING'' \<noteq> [] \<and> ''meeting'' \<noteq> []
      \<and> toLowerCase sample_runtime ''MEETING'' = toLowerCase sample_runtime ''meeting''"
    by (simp add: sample_lower)
  have eq: "ReminderManager_search sample_runtime ''MEETING'' sample_collection
      = ReminderManager_search sample_runtime ''meeting'' sample_collection"
    using inst[of "''MEETING''" "''meeting''", THEN conjunct2, THEN conjunct1] lower by (rule mp)
  have readable: "\<not> (\<exists>r\<in>set (reminders sample_collection).
      unsearchable sample_runtime ''MEETING'' r)"
    by (simp add: unsearchable_def is_Str_def sample_collection_def call_mom_def
        work_meeting_def buy_groceries_def)
  have found: "filter (\<lambda>r. lower_contains sample_runtime (title r) ''MEETING''
                        \<or> lower_contains sample_runtime (description r) ''MEETING'')
                 (reminders sample_collection) = [work_meeting]"
    by (simp add: lower_contains_def is_Str_def str_of_def sample_lower sample_collection_def
        call_mom_def work_meeting_def buy_groceries_def flip: includes_str_sublist)
  have one: "ReminderManager_search sample_runtime ''MEETING'' sample_collection
      = Inr [work_meeting]"
    using inst[of "''MEETING''" "''meeting''", THEN conjunct1] readable by (simp add: found)
  have none: "ReminderManager_search sample_runtime [] sample_collection = Inr []"
    using inst[of "[]" "[]", THEN conjunct1] by simp
  have unreadable: "\<exists>r\<in>set (reminders
        (sample_collection\<lparr> reminders := [call_mom\<lparr> description := Null \<rparr>] \<rparr>)).
      unsearchable sample_runtime ''milk'' r"
    by (simp add: unsearchable_def lower_contains_def is_Str_def str_of_def sample_lower
        call_mom_def flip: includes_str_sublist)
  have thrown: "ReminderManager_search sample_runtime ''milk''
       (sample_collection\<lparr> reminders := [call_mom\<lparr> description := Null \<rparr>] \<rparr>) = Inl TypeError"
    using search_case_insensitive_substring[of sample_runtime "''milk''"
        "sample_collection\<lparr> reminders := [call_mom\<lparr> description := Null \<rparr>] \<rparr>",
        THEN conjunct1] unreadable
    by simp
  have unit: "toLowerCase sample_runtime ''MEETING'' = map lower_char ''MEETING''
      \<and> toLowerCase sample_runtime ''Work meeting'' = map lower_char ''Work meeting''"
    by (simp add: sample_runtime_def)
  have same: "lower_contains sample_runtime (Str ''Work meeting'') ''MEETING''
       = ci_contains lower_char ''Work meeting'' ''MEETING''"
    using inst[of "''MEETING''" "''meeting''" lower_char "''Work meeting''",
        THEN conjunct2, THEN conjunct2] unit
    by (rule mp)
  from one eq none thrown same show ?thesis by simp
qed

section \<open>Sorting by priority\<close>

lemma priorityOrder_valid:
  "p \<in> set validPriorities \<Longrightarrow>
     priorityOrder rt p = Inr (Some (if p = Str ''high'' then 3 else if p = Str ''medium'' then 2 else 1))"
  by (auto simp: validPriorities_def priorityOrder_def to_key_def method_toString_def then_ok_def)

lemma rank_valid:
  "priority r \<in> set validPriorities \<Longrightarrow>
     priorityOrder rt (priority r) = Inr (Some (int (rank r)))"
  by (auto simp: priorityOrder_valid rank_def validPriorities_def)

lemma compare_priority:
  assumes "priority a \<in> set validPriorities" "priority b \<in> set validPriorities"
  shows "compare_by rt ''priority'' order a b = Inr (int (rank b) - int (rank a))"
  using assms by (simp add: compare_by_def rank_valid then_ok_def)

lemma insert_sorted_insort:
  assumes "\<forall>y\<in>set ys. c x y = Inr (k y - k x)"
  shows "insert_sorted c x ys = Inr (insort_key (\<lambda>z. - k z) x ys)"
  using assms by (induction ys) auto

lemma array_sort_sort_key:
  assumes "\<forall>x\<in>set xs. \<forall>y\<in>set xs. c x y = Inr (k y - (k x :: int))"
  shows "array_sort c xs = Inr (sort_key (\<lambda>z. - k z) xs)"
  using assms
proof (induction xs)
  case Nil
  then show ?case by simp
next
  case (Cons x xs)
  then have IH: "array_sort c xs = Inr (sort_key (\<lambda>z. - k z) xs)" by simp
  have "\<forall>y\<in>set (sort_key (\<lambda>z. - k z) xs). c x y = Inr (k y - k x)"
    using Cons.prems by simp
  then show ?case
    by (simp add: IH insert_sorted_insort sort_key_def)
qed

lemma sortBy_priority:
  assumes "\<forall>r\<in>set (reminders m). priority r \<in> set validPriorities"
  shows "ReminderManager_sortBy rt ''priority'' order m
     = Inr (sort_key (\<lambda>r. - int (rank r)) (reminders m))"
  unfolding ReminderManager_sortBy_def
  by (rule array_sort_sort_key) (use assms compare_priority in blast)

lemma sorted_by_rank:
  "sorted_wrt (\<lambda>a b. rank b \<le> rank a) (sort_key (\<lambda>r. - int (rank r)) xs)"
proof -
  have "sorted (map (\<lambda>r. - int (rank r)) (sort_key (\<lambda>r. - int (rank r)) xs))"
    by (rule sorted_sort_key)
  then show ?thesis by (simp add: sorted_map)
qed

lemma stable_by_rank:
  "filter (\<lambda>r. rank r = n) (sort_key (\<lambda>r. - int (rank r)) xs) = filter (\<lambda>r. rank r = n) xs"
  using sort_key_stable[of "\<lambda>r. - int (rank r)" "- int n" xs] by simp

lemma sample_collection_priorities:
  "\<forall>r\<in>set (reminders sample_collection). priority r \<in> set validPriorities"
  by (simp add: sample_collection_def validPriorities_def call_mom_def work_meeting_def
      buy_groceries_def)

lemma sample_collection_sorted:
  "ReminderManager_sortBy sample_runtime ''priority'' ''asc'' sample_collection
     = Inr [work_meeting, buy_groceries, call_mom]"
  "ReminderManager_sortBy sample_runtime ''priority'' ''desc'' sample_collection
     = Inr [work_meeting, buy_groceries, call_mom]"
  by (simp_all add: ReminderManager_sortBy_def sample_collection_def compare_by_def
      priorityOrder_def to_key_def method_toString_def then_ok_def call_mom_def work_meeting_def
      buy_groceries_def)

text \<open>
  Claim C7.  On a collection whose priorities are among low, medium and high,
  \<open>sortBy("priority")\<close> returns, for every order argument, a rearrangement of the stored
  sequence in which an entity never comes before one of higher priority, and entities of
  equal priority keep their stored order; the result is the same for every order argument.
  The call reads the manager and returns a list: it has no effect on the stored sequence.
\<close>

theorem sortBy_priority_most_urgent_first:
  assumes "\<forall>r\<in>set (reminders m). priority r \<in> set validPriorities"
  shows "\<exists>res. ReminderManager_sortBy rt ''priority'' order m = Inr res
           \<and> mset res = mset (reminders m)
           \<and> sorted_wrt (\<lambda>a b. rank b \<le> rank a) res
           \<and> (\<forall>n. filter (\<lambda>r. rank r = n) res = filter (\<lambda>r. rank r = n) (reminders m))
           \<and> ReminderManager_sortBy rt ''priority'' order' m = Inr res"
proof -
  let ?res = "sort_key (\<lambda>r. - int (rank r)) (reminders m)"
  have "ReminderManager_sortBy rt ''priority'' order m = Inr ?res"
    and "ReminderManager_sortBy rt ''priority'' order' m = Inr ?res"
    using assms by (simp_all add: sortBy_priority)
  moreover have "mset ?res = mset (reminders m)" by simp
  moreover have "sorted_wrt (\<lambda>a b. rank b \<le> rank a) ?res" by (rule sorted_by_rank)
  moreover have "\<forall>n. filter (\<lambda>r. rank r = n) ?res = filter (\<lambda>r. rank r = n) (reminders m)"
    by (simp add: stable_by_rank)
  ultimately show ?thesis by blast
qed

theorem sortBy_priority_most_urgent_first_witness:
  "(\<exists>res. ReminderManager_sortBy sample_runtime ''priority'' ''asc'' sample_collection = Inr res
       \<and> mset res = mset (reminders sample_collection)
       \<and> sorted_wrt (\<lambda>a b. rank b \<le> rank a) res
       \<and> ReminderManager_sortBy sample_runtime ''priority'' ''desc'' sample_collection = Inr res)
   \<and> ReminderManager_sortBy sample_runtime ''priority'' ''desc'' sample_collection
       = Inr [work_meeting, buy_groceries, call_mom]
   \<and> map priority (reminders sample_collection) = [Str ''low'', Str ''high'', Str ''medium'']"
proof -
  have "\<exists>res. ReminderManager_sortBy sample_runtime ''priority'' ''asc'' sample_collection = Inr res
       \<and> mset res = mset (reminders sample_collection)
       \<and> sorted_wrt (\<lambda>a b. rank b \<le> rank a) res
       \<and> ReminderManager_sortBy sample_runtime ''priority'' ''desc'' sample_collection = Inr res"
    using sortBy_priority_most_urgent_first[OF sample_collection_priorities,
        of sample_runtime "''asc''" "''desc''"] by blast
  moreover have "map priority (reminders sample_collection)
      = [Str ''low'', Str ''high'', Str ''medium'']"
    by (simp add: sample_collection_def call_mom_def work_meeting_def buy_groceries_def)
  ultimately show ?thesis using sample_collection_sorted(2) by blast
qed

section \<open>Import of a malformed backup\<close>

lemma backup_items_format_error:
  assumes "\<not> truthy v \<or> (\<forall>xs. prop_of v ''data'' \<noteq> Arr xs)"
  shows "backup_items (BackupValue v) = Inl (Error ''Invalid backup data format'')"
  using assms by (auto simp: backup_items_def split: jsval.splits)

text \<open>
  Claim C4, as stated, fails.  For a backup whose \<open>data\<close> is a string, \<open>import\<close> returns a
  result to the caller: no entity imported and one error message.  No error is raised.
\<close>

theorem import_returns_on_non_array:
  "StorageLayer_import sample_runtime sample_ids sample_ids (StorageLayer_new ''reminders'')
     (BackupValue (Obj [(''version'', Num 1), (''data'', Str ''not an array'')])) sample_store
   = Inr (\<lparr> imported = 0, errors = [Message_of (Error ''Invalid backup data format'')] \<rparr>,
          sample_store)"
  by (simp add: StorageLayer_import_def backup_items_def)

text \<open>
  Claim C4, amended.  For every backup argument that is \<open>null\<close> or \<open>undefined\<close>, or whose
  \<open>data\<close> field is absent or not an array, \<open>import\<close> raises nothing: the error thrown by
  its format check is caught inside \<open>import\<close>, and the call returns the result with
  \<open>imported = 0\<close> and the single error message \<open>Invalid backup data format\<close>, leaving the
  store as it was.
\<close>

theorem import_format_error_by_value:
  assumes "\<not> truthy v \<or> (\<forall>xs. prop_of v ''data'' \<noteq> Arr xs)"
  shows "StorageLayer_import rt ids ids' sl (BackupValue v) ls
     = Inr (\<lparr> imported = 0, errors = [Message_of (Error ''Invalid backup data format'')] \<rparr>, ls)"
  by (simp add: StorageLayer_import_def backup_items_format_error[OF assms])

theorem import_format_error_by_value_witness:
  "StorageLayer_import sample_runtime sample_ids sample_ids (StorageLayer_new ''reminders'')
     (BackupValue Null) sample_store
   = Inr (\<lparr> imported = 0, errors = [Message_of (Error ''Invalid backup data format'')] \<rparr>,
          sample_store)
   \<and> StorageLayer_import sample_runtime sample_ids sample_ids (StorageLayer_new ''reminders'')
       (BackupValue (Obj [(''version'', Num 1)])) sample_store
     = Inr (\<lparr> imported = 0, errors = [Message_of (Error ''Invalid backup data format'')] \<rparr>,
            sample_store)"
proof -
  have absent: "\<not> truthy (Obj [(''version'', Num 1)])
      \<or> (\<forall>xs. prop_of (Obj [(''version'', Num 1)]) ''data'' \<noteq> Arr xs)"
    by simp
  have null: "\<not> truthy Null \<or> (\<forall>xs. prop_of Null ''data'' \<noteq> Arr xs)"
    by simp
  show ?thesis
    using import_format_error_by_value[OF null] import_format_error_by_value[OF absent]
    by simp
qed

section \<open>Saving a list that holds a plain record\<close>

lemma all_ok_Inl: "Inl e \<in> set ms \<Longrightarrow> \<exists>e'. all_ok ms = Inl e'"
  by (induction ms) (auto split: sum.splits)

lemma valid_plain_has_no_toJSON:
  "validate_item (Val v) = None \<Longrightarrow> item_toJSON rt (Val v) = Inl TypeError"
  by (cases v) (auto simp: validate_item_def item_toJSON_def split: if_splits)

lemma first_invalid_None: "first_invalid xs = None \<Longrightarrow> \<forall>x\<in>set xs. validate_item x = None"
  by (induction xs) (auto split: option.splits)

lemma plain_not_serialised:
  assumes "Val v \<in> set xs" "first_invalid xs = None"
  shows "\<exists>e. all_ok (map (item_toJSON rt) xs) = Inl e"
proof -
  have "validate_item (Val v) = None" using assms first_invalid_None by blast
  then have "item_toJSON rt (Val v) = Inl TypeError" by (rule valid_plain_has_no_toJSON)
  then have "Inl TypeError \<in> set (map (item_toJSON rt) xs)" using assms(1) by force
  then show ?thesis by (rule all_ok_Inl)
qed

lemma save_plain:
  assumes "Val v \<in> set xs"
  shows "StorageLayer_save rt sl xs ls = (False, snd (isStorageAvailable ls))"
proof (cases "first_invalid xs")
  case None
  from plain_not_serialised[OF assms None] obtain e where
    "all_ok (map (item_toJSON rt) xs) = Inl e" by blast
  then show ?thesis
    by (simp add: StorageLayer_save_def isStorageAvailable_cases None)
next
  case (Some e)
  then show ?thesis by (simp add: StorageLayer_save_def isStorageAvailable_cases)
qed

lemma probe_store_items:
  "items probe_store probe_key = Some (JsonText (Obj [(''version'', Num 1), (''data'', Arr [])]))"
  "present probe_store"
  "accepts probe_store probe_key (RawText ''test'')"
  by (simp_all add: probe_store_def sample_store_def)

text \<open>
  Claim C10, as stated, fails where the storage key is the key of the availability probe.
  The list holds one plain record with a title; \<open>save\<close> returns false, and the value that
  was stored under the storage key is gone, deleted by the probe.
\<close>

theorem save_failure_changes_probe_key:
  "fst (StorageLayer_save sample_runtime (StorageLayer_new probe_key) [Val plain_task] probe_store)
     = False
   \<and> items probe_store (sl_storageKey (StorageLayer_new probe_key))
       = Some (JsonText (Obj [(''version'', Num 1), (''data'', Arr [])]))
   \<and> items (snd (StorageLayer_save sample_runtime (StorageLayer_new probe_key) [Val plain_task]
         probe_store)) (sl_storageKey (StorageLayer_new probe_key)) = None"
proof -
  have "Val plain_task \<in> set [Val plain_task]" by simp
  from save_plain[OF this] show ?thesis
    by (simp add: isStorageAvailable_cases probe_store_items StorageLayer_new_def)
qed

text \<open>
  Claim C10, amended.  For every input list to \<open>save\<close> that contains at least one element
  that is not a Reminder entity, \<open>save\<close> returns false, also when every such element has a
  non-empty title and passes the validation step, and the value stored under every key
  other than the key of the availability probe is unchanged; in particular the value under
  the storage key is unchanged when the storage key is not the probe's key.
\<close>

theorem save_with_plain_record_fails:
  assumes "Val v \<in> set xs"
  shows "fst (StorageLayer_save rt sl xs ls) = False
         \<and> (\<forall>k. k \<noteq> probe_key \<longrightarrow> items (snd (StorageLayer_save rt sl xs ls)) k = items ls k)
         \<and> (sl_storageKey sl \<noteq> probe_key \<longrightarrow>
               items (snd (StorageLayer_save rt sl xs ls)) (sl_storageKey sl)
                 = items ls (sl_storageKey sl))"
  by (simp add: save_plain[OF assms] isStorageAvailable_cases)

theorem save_with_plain_record_fails_witness:
  "first_invalid [Inst sample_reminder, Val plain_task] = None
   \<and> fst (StorageLayer_save sample_runtime (StorageLayer_new ''reminders'')
          [Inst sample_reminder, Val plain_task] sample_store) = False
   \<and> items (snd (StorageLayer_save sample_runtime (StorageLayer_new ''reminders'')
          [Inst sample_reminder, Val plain_task] sample_store)) ''reminders''
       = items sample_store ''reminders''"
proof -
  have mem: "Val plain_task \<in> set [Inst sample_reminder, Val plain_task]" by simp
  have key: "sl_storageKey (StorageLayer_new ''reminders'') = ''reminders''"
    by (simp add: StorageLayer_new_def)
  have ne: "''reminders'' \<noteq> probe_key" by (simp add: probe_key_def)
  have valid: "first_invalid [Inst sample_reminder, Val plain_task] = None"
    by (simp add: validate_item_def plain_task_def trim_def is_space_def)
  from save_with_plain_record_fails[OF mem, of sample_runtime "StorageLayer_new ''reminders''"
      sample_store]
  show ?thesis using key ne valid by simp
qed

section \<open>Loading a legacy bare array\<close>

lemma is_Str_iff: "is_Str v = (\<exists>s. v = Str s)"
  by (cases v) (simp_all add: is_Str_def)

lemma date_ok_iff:
  "date_ok rt v = (\<exists>s d. v = Str s \<and> s \<noteq> [] \<and> pdt_parse rt (Str s) = Some d)"
  by (cases v) (auto simp: date_ok_def)

lemma date_ok_value:
  "date_ok rt v \<Longrightarrow> truthy v \<and> pdt_value rt v = Inr (date_of rt v) \<and> (\<exists>d. date_of rt v = PDT d)"
  by (auto simp: date_ok_iff pdt_value_def pdt_from_def then_ok_def date_of_def)

lemma optional_date_value:
  assumes "v = Null \<or> date_ok rt v"
  shows "(if truthy v then pdt_value rt v else Inr Null) = Inr (date_of rt v)"
    and "date_of rt v = Null \<or> (\<exists>d. date_of rt v = PDT d)"
  using assms date_ok_value[of rt v] by (auto simp: date_of_def)

lemma complete_record_not_null:
  "complete_record rt x \<Longrightarrow> x \<noteq> Undefined \<and> x \<noteq> Null"
  by (auto simp: complete_record_def is_Str_def)

lemma normalized_priority_valid:
  "p \<in> set validPriorities \<Longrightarrow> normalized_priority p = p"
  by (auto simp: normalized_priority_def validPriorities_def)

lemma or_else_truthy: "truthy v \<Longrightarrow> or_else v w = v"
  by (simp add: or_else_def)

lemma optional_date_or_else:
  "v = Null \<or> date_ok rt v \<Longrightarrow> or_else v Null = v"
  using date_ok_value[of rt v] by (auto simp: or_else_def)

lemma complete_title:
  "complete_record rt x \<Longrightarrow> truthy (prop_of x ''title'') \<and> check_title (prop_of x ''title'') = None"
  by (auto simp: complete_record_def is_Str_iff check_title_def str_of_def trim_def)

lemma normalized_complete:
  assumes "complete_record rt x"
  shows "prop_of (normalized_record rt nid x) ''id'' = prop_of x ''id''"
    "prop_of (normalized_record rt nid x) ''title'' = prop_of x ''title''"
    "prop_of (normalized_record rt nid x) ''description'' = prop_of x ''description''"
    "prop_of (normalized_record rt nid x) ''dueDate'' = prop_of x ''dueDate''"
    "prop_of (normalized_record rt nid x) ''priority'' = prop_of x ''priority''"
    "prop_of (normalized_record rt nid x) ''category'' = prop_of x ''category''"
    "prop_of (normalized_record rt nid x) ''isCompleted'' = prop_of x ''isCompleted''"
    "prop_of (normalized_record rt nid x) ''createdAt'' = prop_of x ''createdAt''"
    "prop_of (normalized_record rt nid x) ''completedAt'' = prop_of x ''completedAt''"
proof -
  show "prop_of (normalized_record rt nid x) ''id'' = prop_of x ''id''"
    using assms by (auto simp: prop_of_normalized(1) complete_record_def is_Str_iff str_of_def or_else_def)
  show "prop_of (normalized_record rt nid x) ''title'' = prop_of x ''title''"
    using complete_title[OF assms] by (simp add: prop_of_normalized(2) or_else_truthy)
  show "prop_of (normalized_record rt nid x) ''description'' = prop_of x ''description''"
    using assms by (auto simp: prop_of_normalized(3) complete_record_def is_Str_iff or_else_def)
  show "prop_of (normalized_record rt nid x) ''dueDate'' = prop_of x ''dueDate''"
    using assms optional_date_or_else[of "prop_of x ''dueDate''" rt]
    by (simp add: prop_of_normalized(4) complete_record_def)
  show "prop_of (normalized_record rt nid x) ''priority'' = prop_of x ''priority''"
    using assms by (simp add: prop_of_normalized(5) complete_record_def normalized_priority_valid)
  show "prop_of (normalized_record rt nid x) ''category'' = prop_of x ''category''"
    using assms by (auto simp: prop_of_normalized(6) complete_record_def is_Str_iff str_of_def or_else_def)
  show "prop_of (normalized_record rt nid x) ''isCompleted'' = prop_of x ''isCompleted''"
    using assms by (auto simp: prop_of_normalized(7) complete_record_def)
  show "prop_of (normalized_record rt nid x) ''createdAt'' = prop_of x ''createdAt''"
    using assms date_ok_value[of rt "prop_of x ''createdAt''"]
    by (simp add: prop_of_normalized(8) complete_record_def or_else_truthy)
  show "prop_of (normalized_record rt nid x) ''completedAt'' = prop_of x ''completedAt''"
    using assms optional_date_or_else[of "prop_of x ''completedAt''" rt]
    by (simp add: prop_of_normalized(9) complete_record_def)
qed

lemma fromJSON_fields:
  assumes "json \<noteq> Undefined" "json \<noteq> Null"
    and "check_title (prop_of json ''title'') = None"
    and "check_priority (dflt (Str ''medium'') (prop_of json ''priority'')) = None"
    and "(if truthy (prop_of json ''dueDate'') then pdt_value rt (prop_of json ''dueDate'')
          else Inr Null) = Inr due"
    and "pdt_value rt (prop_of json ''createdAt'') = Inr created"
    and "(if truthy (prop_of json ''completedAt'') then pdt_value rt (prop_of json ''completedAt'')
          else Inr Null) = Inr completed"
  shows "fromJSON rt nid json =
     Inr \<lparr> id' = prop_of json ''id'', title = prop_of json ''title'',
           description = dflt (Str []) (prop_of json ''description''), dueDate = due,
           priority = dflt (Str ''medium'') (prop_of json ''priority''),
           category = dflt (Str ''general'') (prop_of json ''category''),
           isCompleted = prop_of json ''isCompleted'', createdAt = created,
           completedAt = completed \<rparr>"
  unfolding fromJSON_def Reminder_new_def Let_def
  using assms by (simp add: then_ok_simps dflt_def)

lemma dflt_Str: "is_Str v \<Longrightarrow> dflt d v = v"
  by (auto simp: is_Str_iff dflt_def)

lemma revive_complete:
  assumes "complete_record rt x"
  shows "revive rt nid x = Inr (record_entity rt x)"
proof -
  let ?n = "normalized_record rt nid x"
  note np = normalized_complete[OF assms, of nid]
  have n: "normalizeReminderData rt nid x = Inr ?n"
    using complete_record_not_null[OF assms] by (simp add: normalize_Inr)
  have nn: "?n \<noteq> Undefined" "?n \<noteq> Null" by (simp_all add: normalized_record_def)
  have t: "check_title (prop_of ?n ''title'') = None"
    using complete_title[OF assms] by (simp add: np)
  have pv: "prop_of x ''priority'' \<in> set validPriorities"
    using assms by (simp add: complete_record_def)
  then have ps: "is_Str (prop_of x ''priority'')"
    by (auto simp: validPriorities_def is_Str_def)
  have p: "check_priority (dflt (Str ''medium'') (prop_of ?n ''priority'')) = None"
    using pv ps by (simp add: np dflt_Str check_priority_def)
  have d: "(if truthy (prop_of ?n ''dueDate'') then pdt_value rt (prop_of ?n ''dueDate'')
          else Inr Null) = Inr (date_of rt (prop_of x ''dueDate''))"
    unfolding np using assms by (intro optional_date_value(1)) (simp add: complete_record_def)
  have c: "pdt_value rt (prop_of ?n ''createdAt'') = Inr (date_of rt (prop_of x ''createdAt''))"
    unfolding np using assms date_ok_value[of rt "prop_of x ''createdAt''"]
    by (simp add: complete_record_def)
  have e: "(if truthy (prop_of ?n ''completedAt'') then pdt_value rt (prop_of ?n ''completedAt'')
          else Inr Null) = Inr (date_of rt (prop_of x ''completedAt''))"
    unfolding np using assms by (intro optional_date_value(1)) (simp add: complete_record_def)
  have strs: "is_Str (prop_of x ''description'')" "is_Str (prop_of x ''category'')"
    using assms by (simp_all add: complete_record_def)
  show ?thesis
    unfolding revive_def n then_ok_simps fromJSON_fields[OF nn t p d c e] np
    using strs ps by (simp add: dflt_Str record_entity_def)
qed

lemma migrate_complete:
  "\<forall>x\<in>set xs. complete_record rt x \<Longrightarrow> migrateFromLegacy rt ids xs = map (record_entity rt) xs"
  by (induction xs arbitrary: ids) (simp_all add: revive_complete)

lemma same_fields_record_entity: "same_fields rt (record_entity rt x) x"
  by (simp add: same_fields_def record_entity_def)

lemma toJSON_record_entity:
  assumes "complete_record rt x"
  shows "\<exists>json. toJSON rt (record_entity rt x) = Inr json"
proof -
  have d: "date_of rt (prop_of x ''dueDate'') = Null \<or> (\<exists>d. date_of rt (prop_of x ''dueDate'') = PDT d)"
    using assms by (intro optional_date_value(2)) (simp add: complete_record_def)
  have e: "date_of rt (prop_of x ''completedAt'') = Null
      \<or> (\<exists>d. date_of rt (prop_of x ''completedAt'') = PDT d)"
    using assms by (intro optional_date_value(2)) (simp add: complete_record_def)
  have c: "\<exists>d. date_of rt (prop_of x ''createdAt'') = PDT d"
    using assms date_ok_value[of rt "prop_of x ''createdAt''"] by (simp add: complete_record_def)
  show ?thesis
    using c d e by (auto simp: toJSON_Inr record_entity_def method_toString_def)
qed

lemma all_ok_exists:
  "\<forall>m\<in>set ms. \<exists>y. m = Inr y \<Longrightarrow> \<exists>ys. all_ok ms = Inr ys"
  by (induction ms) auto

lemma serialise_complete:
  assumes "\<forall>x\<in>set xs. complete_record rt x"
  shows "\<exists>recs. all_ok (map (toJSON rt) (map (record_entity rt) xs)) = Inr recs"
  by (rule all_ok_exists) (use assms toJSON_record_entity in auto)

lemma first_invalid_entities: "first_invalid (map Inst rs) = None"
  by (induction rs) (simp_all add: validate_item_def)

lemma item_toJSON_entities: "map (item_toJSON rt) (map Inst rs) = map (toJSON rt) rs"
  by (simp add: item_toJSON_def)

lemma save_entities:
  assumes "present ls" "accepts ls probe_key (RawText ''test'')"
    and "all_ok (map (toJSON rt) rs) = Inr recs"
  shows "StorageLayer_save rt sl (map Inst rs) ls =
     (if accepts ls (sl_storageKey sl)
           (JSON_stringify rt (Obj [(''version'', Num (version sl)), (''data'', Arr recs)]))
      then (True, ls\<lparr> items := (items ls)(probe_key := None,
              sl_storageKey sl \<mapsto>
                JSON_stringify rt (Obj [(''version'', Num (version sl)), (''data'', Arr recs)])) \<rparr>)
      else (False, ls\<lparr> items := (items ls)(probe_key := None) \<rparr>))"
  unfolding StorageLayer_save_def item_toJSON_entities first_invalid_entities
  using assms by (simp add: isStorageAvailable_cases setItem_def)

lemma load_legacy:
  assumes "present ls" "accepts ls probe_key (RawText ''test'')"
    and "sl_storageKey sl \<noteq> probe_key"
    and "items ls (sl_storageKey sl) = Some (JsonText (Arr xs))"
  shows "StorageLayer_load rt ids sl ls =
     (migrateFromLegacy rt ids xs,
      snd (StorageLayer_save rt sl (map Inst (migrateFromLegacy rt ids xs))
             (ls\<lparr> items := (items ls)(probe_key := None) \<rparr>)))"
  using assms
  by (simp add: StorageLayer_load_def isStorageAvailable_cases JSON_parse_def Let_def)

lemma legacy_store_simps:
  "present (legacy_store x)"
  "accepts (legacy_store x) k t"
  "items (legacy_store x) ''reminders'' = Some (JsonText (Arr [x]))"
  by (simp_all add: legacy_store_def sample_store_def)

lemma reminders_not_probe: "''reminders'' \<noteq> probe_key"
  by (simp add: probe_key_def)

lemma sl_new_key: "sl_storageKey (StorageLayer_new key) = key"
  by (simp add: StorageLayer_new_def)

lemma load_sample_legacy:
  "fst (StorageLayer_load rt ids (StorageLayer_new ''reminders'') (legacy_store x))
     = migrateFromLegacy rt ids [x]"
  using load_legacy[of "legacy_store x" "StorageLayer_new ''reminders''" "[x]" rt ids]
  by (simp add: legacy_store_simps sl_new_key reminders_not_probe)

lemma sample_record_complete: "complete_record sample_runtime sample_record"
  by (simp add: complete_record_def sample_record_def is_Str_def str_of_def trim_def
      is_space_def validPriorities_def date_ok_def sample_runtime_def iso_table_def)

lemma sample_record_entity: "record_entity sample_runtime sample_record = sample_reminder"
  by (simp add: record_entity_def sample_record_def sample_reminder_def date_of_def
      sample_runtime_def iso_table_def)

text \<open>
  Claim C6, as stated, fails.  A stored bare array holds one record with all nine fields,
  whose category is the empty string.  The entity that \<open>load\<close> returns for it has the
  category \<open>general\<close>.
\<close>

theorem legacy_load_changes_empty_category:
  "map category (fst (StorageLayer_load sample_runtime sample_ids
       (StorageLayer_new ''reminders'') (legacy_store legacy_uncategorised)))
     = [Str ''general'']
   \<and> prop_of legacy_uncategorised ''category'' = Str []"
  by (simp add: load_sample_legacy revive_def normalizeReminderData_def normalized_record_def
      normalized_priority_def legacy_uncategorised_def then_ok_def or_else_def
      validPriorities_def fromJSON_def Reminder_new_def check_title_def check_priority_def
      dflt_def trim_def is_space_def pdt_value_def pdt_from_def sample_runtime_def iso_table_def)

text \<open>
  Claim C6, amended.  Let the store be available, the storage key differ from the key of the
  availability probe, and the stored value be a bare array of complete legacy records:
  plain objects with all nine fields, where the identifier and the category are non-empty
  strings, the title is a non-blank string, the description a string, the priority one of
  low, medium and high, the completion flag a boolean, and the dates strings that the
  Temporal library reads (due date and completion date may be \<open>null\<close>).  Then \<open>load\<close> returns
  one entity for each record, in order, equal to it field for field, with each date the
  instant its string denotes; and the value stored under the key afterwards is the
  version-1 envelope of these entities when the store accepts that write, and the bare array
  as before when it does not.
\<close>

theorem legacy_load_migrates:
  assumes "present ls" and "accepts ls probe_key (RawText ''test'')"
    and "key \<noteq> probe_key"
    and "items ls key = Some (JsonText (Arr xs))"
    and "\<forall>x\<in>set xs. complete_record rt x"
  shows "\<exists>env.
           list_all2 (same_fields rt) (fst (StorageLayer_load rt ids (StorageLayer_new key) ls)) xs
           \<and> envelope rt (fst (StorageLayer_load rt ids (StorageLayer_new key) ls)) = Inr env
           \<and> items (snd (StorageLayer_load rt ids (StorageLayer_new key) ls)) key
               = Some (if accepts ls key env then env else JsonText (Arr xs))"
proof -
  let ?sl = "StorageLayer_new key"
  let ?rs = "map (record_entity rt) xs"
  let ?ls1 = "ls\<lparr> items := (items ls)(probe_key := None) \<rparr>"
  have k: "sl_storageKey ?sl = key" "version ?sl = 1"
    by (simp_all add: StorageLayer_new_def)
  have mig: "migrateFromLegacy rt ids xs = ?rs"
    using assms(5) by (rule migrate_complete)
  have load: "StorageLayer_load rt ids ?sl ls
      = (?rs, snd (StorageLayer_save rt ?sl (map Inst ?rs) ?ls1))"
    using load_legacy[of ls ?sl xs rt ids] assms(1-4) by (simp add: k mig)
  from serialise_complete[OF assms(5)] obtain recs where
    recs: "all_ok (map (toJSON rt) ?rs) = Inr recs" by blast
  let ?env = "JSON_stringify rt (Obj [(''version'', Num 1), (''data'', Arr recs)])"
  have av: "present ?ls1" "accepts ?ls1 probe_key (RawText ''test'')"
    using assms(1,2) by simp_all
  have save: "items (snd (StorageLayer_save rt ?sl (map Inst ?rs) ?ls1)) key
      = Some (if accepts ls key ?env then ?env else JsonText (Arr xs))"
    unfolding save_entities[OF av recs] using assms(3,4) by (simp add: k)
  have same: "list_all2 (same_fields rt) ?rs xs"
    by (simp add: list_all2_map1 list_all2_same same_fields_record_entity)
  have env: "envelope rt ?rs = Inr ?env"
    unfolding envelope_def recs then_ok_simps ..
  show ?thesis
    unfolding load fst_conv snd_conv using same env save by blast
qed

theorem legacy_load_migrates_witness:
  "(\<exists>env.
      list_all2 (same_fields sample_runtime)
        (fst (StorageLayer_load sample_runtime sample_ids (StorageLayer_new ''reminders'')
           (legacy_store sample_record))) [sample_record]
      \<and> envelope sample_runtime
          (fst (StorageLayer_load sample_runtime sample_ids (StorageLayer_new ''reminders'')
             (legacy_store sample_record))) = Inr env
      \<and> items (snd (StorageLayer_load sample_runtime sample_ids (StorageLayer_new ''reminders'')
             (legacy_store sample_record))) ''reminders'' = Some env)
   \<and> fst (StorageLayer_load sample_runtime sample_ids (StorageLayer_new ''reminders'')
           (legacy_store sample_record)) = [sample_reminder]"
proof -
  have complete: "\<forall>x\<in>set [sample_record]. complete_record sample_runtime x"
    by (simp add: sample_record_complete)
  from legacy_load_migrates[OF legacy_store_simps(1) legacy_store_simps(2) reminders_not_probe
      legacy_store_simps(3) complete, where ids = sample_ids]
  have "\<exists>env.
      list_all2 (same_fields sample_runtime)
        (fst (StorageLayer_load sample_runtime sample_ids (StorageLayer_new ''reminders'')
           (legacy_store sample_record))) [sample_record]
      \<and> envelope sample_runtime
          (fst (StorageLayer_load sample_runtime sample_ids (StorageLayer_new ''reminders'')
             (legacy_store sample_record))) = Inr env
      \<and> items (snd (StorageLayer_load sample_runtime sample_ids (StorageLayer_new ''reminders'')
             (legacy_store sample_record))) ''reminders'' = Some env"
    by (simp add: legacy_store_simps)
  moreover have "fst (StorageLayer_load sample_runtime sample_ids (StorageLayer_new ''reminders'')
           (legacy_store sample_record)) = [sample_reminder]"
    using migrate_complete[OF complete]
    by (simp add: load_sample_legacy sample_record_entity)
  ultimately show ?thesis by blast
qed

section \<open>Persistence after the mutations of the manager\<close>

lemma save_attrs:
  "present (ReminderManager_save rt m ls) = present ls"
  "accepts (ReminderManager_save rt m ls) = accepts ls"
  by (auto simp: ReminderManager_save_def setItem_def split: sum.splits)

lemma save_writes:
  assumes "bare_array rt (reminders m) = Inr t" "present ls" "accepts ls (storageKey m) t"
  shows "items (ReminderManager_save rt m ls) (storageKey m) = Some t"
  using assms
  by (auto simp: bare_array_def then_ok_Inr ReminderManager_save_def setItem_def)

lemma add_saved:
  assumes "entity_of rt nid x = Inr r"
  shows "ReminderManager_add rt nid x m ls
     = (Inr r, m\<lparr> reminders := reminders m @ [r] \<rparr>,
        ReminderManager_save rt (m\<lparr> reminders := reminders m @ [r] \<rparr>) ls)"
  using assms by (simp add: ReminderManager_add_def Let_def)

lemma add_failed:
  assumes "entity_of rt nid x = Inl e"
  shows "ReminderManager_add rt nid x m ls = (Inl e, m, ls)"
  using assms by (simp add: ReminderManager_add_def)

lemma addMultiple_saved:
  assumes "xs \<noteq> []" "succeeds (entity_of rt (ids 0) (hd xs))"
  shows "\<exists>ls0. present ls0 = present ls \<and> accepts ls0 = accepts ls
     \<and> storageKey (fst (snd (ReminderManager_addMultiple rt ids xs m ls))) = storageKey m
     \<and> snd (snd (ReminderManager_addMultiple rt ids xs m ls))
         = ReminderManager_save rt (fst (snd (ReminderManager_addMultiple rt ids xs m ls))) ls0"
  using assms
proof (induction xs arbitrary: ids m ls)
  case Nil
  then show ?case by simp
next
  case (Cons x xs)
  from Cons.prems(2) obtain r where r: "entity_of rt (ids 0) x = Inr r"
    by (cases "entity_of rt (ids 0) x") (simp_all add: succeeds_def)
  let ?m1 = "m\<lparr> reminders := reminders m @ [r] \<rparr>"
  let ?ls1 = "ReminderManager_save rt ?m1 ls"
  note first = add_saved[OF r, of m ls]
  note IH = Cons.IH[where ids = "\<lambda>i. ids (Suc i)" and m = ?m1 and ls = ?ls1]
  show ?case
  proof (cases xs)
    case Nil
    then show ?thesis using first by (intro exI[of _ ls]) simp
  next
    case (Cons y ys)
    show ?thesis
    proof (cases "entity_of rt (ids (Suc 0)) y")
      case (Inl e)
      then have "ReminderManager_addMultiple rt (\<lambda>i. ids (Suc i)) xs ?m1 ?ls1 = (Inl e, ?m1, ?ls1)"
        using Cons by (simp add: add_failed)
      then show ?thesis using first by (intro exI[of _ ls]) simp
    next
      case (Inr r')
      then have ok: "xs \<noteq> []" "succeeds (entity_of rt (ids (Suc 0)) (hd xs))"
        using Cons by (simp_all add: succeeds_def)
      from IH[OF ok] obtain ls0 where
        ls0: "present ls0 = present ?ls1" "accepts ls0 = accepts ?ls1"
          "storageKey (fst (snd (ReminderManager_addMultiple rt (\<lambda>i. ids (Suc i)) xs ?m1 ?ls1)))
             = storageKey ?m1"
          "snd (snd (ReminderManager_addMultiple rt (\<lambda>i. ids (Suc i)) xs ?m1 ?ls1))
             = ReminderManager_save rt
                 (fst (snd (ReminderManager_addMultiple rt (\<lambda>i. ids (Suc i)) xs ?m1 ?ls1))) ls0"
        by blast
      obtain out m2 ls2 where rest:
        "ReminderManager_addMultiple rt (\<lambda>i. ids (Suc i)) xs ?m1 ?ls1 = (out, m2, ls2)"
        by (cases "ReminderManager_addMultiple rt (\<lambda>i. ids (Suc i)) xs ?m1 ?ls1") auto
      have final: "snd (ReminderManager_addMultiple rt ids (x # xs) m ls) = (m2, ls2)"
        using first rest by (cases out) simp_all
      show ?thesis
        using ls0 rest final by (intro exI[of _ ls0]) (simp add: save_attrs)
    qed
  qed
qed

lemma mutation_ends_in_save:
  assumes "reaches_save rt mu m"
  shows "\<exists>ls0. present ls0 = present ls \<and> accepts ls0 = accepts ls
     \<and> storageKey (fst (apply_mutation rt mu (m, ls))) = storageKey m
     \<and> snd (apply_mutation rt mu (m, ls))
         = ReminderManager_save rt (fst (apply_mutation rt mu (m, ls))) ls0"
proof (cases mu)
  case (Add nid x)
  with assms obtain r where "entity_of rt nid x = Inr r"
    by (cases "entity_of rt nid x") (simp_all add: succeeds_def)
  then show ?thesis using Add by (intro exI[of _ ls]) (simp add: add_saved)
next
  case (AddMultiple ids xs)
  with assms have "xs \<noteq> []" "succeeds (entity_of rt (ids 0) (hd xs))" by simp_all
  from addMultiple_saved[where ids = ids and xs = xs and rt = rt and m = m and ls = ls, OF this]
  show ?thesis using AddMultiple by simp
next
  case (Remove i)
  with assms obtain n where "findIndex (\<lambda>r. strict_eq (id' r) i) (reminders m) = Some n"
    by auto
  then show ?thesis using Remove
    by (intro exI[of _ ls]) (simp add: ReminderManager_remove_def Let_def)
next
  case RemoveCompleted
  then show ?thesis
    by (intro exI[of _ ls]) (simp add: ReminderManager_removeCompleted_def Let_def)
next
  case Clear
  then show ?thesis by (intro exI[of _ ls]) (simp add: ReminderManager_clear_def Let_def)
next
  case (Update i ups)
  with assms obtain n where "findIndex (\<lambda>r. strict_eq (id' r) i) (reminders m) = Some n"
    "fst (update ups (reminders m ! n)) = None"
    by (auto split: option.splits)
  then show ?thesis using Update
    by (intro exI[of _ ls]) (simp add: ReminderManager_update_def Let_def)
next
  case (Import ids t)
  with assms obtain rs where "decode_array rt ids t = Inr rs"
    by (cases "decode_array rt ids t") (simp_all add: succeeds_def)
  then show ?thesis using Import
    by (intro exI[of _ ls]) (simp add: ReminderManager_import_def Let_def)
qed

lemma addMultiple_key:
  "storageKey (fst (snd (ReminderManager_addMultiple rt ids xs m ls))) = storageKey m"
proof (induction xs arbitrary: ids m ls)
  case Nil
  then show ?case by simp
next
  case (Cons x xs)
  show ?case
  proof (cases "entity_of rt (ids 0) x")
    case (Inl e)
    then show ?thesis by (simp add: add_failed)
  next
    case (Inr r)
    let ?m1 = "m\<lparr> reminders := reminders m @ [r] \<rparr>"
    let ?ls1 = "ReminderManager_save rt ?m1 ls"
    obtain out m2 ls2 where rest:
      "ReminderManager_addMultiple rt (\<lambda>i. ids (Suc i)) xs ?m1 ?ls1 = (out, m2, ls2)"
      by (cases "ReminderManager_addMultiple rt (\<lambda>i. ids (Suc i)) xs ?m1 ?ls1") auto
    have "storageKey m2 = storageKey ?m1"
      using Cons.IH[of "\<lambda>i. ids (Suc i)" ?m1 ?ls1] rest by simp
    then show ?thesis using rest by (cases out) (simp_all add: add_saved[OF Inr])
  qed
qed

lemma mutation_keeps_key:
  "storageKey (fst (apply_mutation rt mu (m, ls))) = storageKey m"
proof (cases mu)
  case (Add nid x)
  then show ?thesis by (simp add: ReminderManager_add_def Let_def split: sum.splits)
next
  case (AddMultiple ids xs)
  then show ?thesis by (simp add: addMultiple_key)
next
  case (Remove i)
  then show ?thesis by (simp add: ReminderManager_remove_def Let_def split: option.splits)
next
  case RemoveCompleted
  then show ?thesis by (simp add: ReminderManager_removeCompleted_def Let_def)
next
  case Clear
  then show ?thesis by (simp add: ReminderManager_clear_def Let_def)
next
  case (Update i ups)
  then show ?thesis by (simp add: ReminderManager_update_def Let_def split: option.splits)
next
  case (Import ids t)
  then show ?thesis by (simp add: ReminderManager_import_def Let_def split: sum.splits)
qed

lemma mutation_without_save:
  assumes "\<not> reaches_save rt mu m"
  shows "snd (apply_mutation rt mu (m, ls)) = ls"
proof (cases mu)
  case (Add nid x)
  with assms obtain e where "entity_of rt nid x = Inl e"
    by (cases "entity_of rt nid x") (simp_all add: succeeds_def)
  then show ?thesis using Add by (simp add: add_failed)
next
  case (AddMultiple ids xs)
  show ?thesis
  proof (cases xs)
    case Nil
    then show ?thesis using AddMultiple by simp
  next
    case (Cons y ys)
    with assms AddMultiple obtain e where "entity_of rt (ids 0) y = Inl e"
      by (cases "entity_of rt (ids 0) y") (simp_all add: succeeds_def)
    then show ?thesis using AddMultiple Cons by (simp add: add_failed)
  qed
next
  case (Remove i)
  with assms show ?thesis by (simp add: ReminderManager_remove_def)
next
  case RemoveCompleted
  with assms show ?thesis by simp
next
  case Clear
  with assms show ?thesis by simp
next
  case (Update i ups)
  with assms show ?thesis
    by (auto simp: ReminderManager_update_def Let_def split: option.splits)
next
  case (Import ids t)
  with assms obtain e where "decode_array rt ids t = Inl e"
    by (cases "decode_array rt ids t") (simp_all add: succeeds_def)
  then show ?thesis using Import by (simp add: ReminderManager_import_def)
qed

lemma bare_is_not_envelope:
  "bare_array rt rs = Inr t \<Longrightarrow> envelope rt rs \<noteq> Inr t"
  by (auto simp: bare_array_def envelope_def then_ok_Inr JSON_stringify_def)

lemma sample_toJSON: "toJSON sample_runtime sample_reminder = Inr sample_record"
  by (simp add: toJSON_def then_ok_def method_toString_def sample_reminder_def
      sample_record_def sample_runtime_def iso_table_def)

lemma to_json_sample_record: "to_json rt sample_record = sample_record"
  by (simp add: sample_record_def)

lemma sample_record_defined: "sample_record \<noteq> Undefined"
  by (simp add: sample_record_def)

lemma sample_bare_array:
  "bare_array sample_runtime [sample_reminder] = Inr (JsonText (Arr [sample_record]))"
  by (simp add: bare_array_def sample_toJSON then_ok_def JSON_stringify_def
      to_json_sample_record sample_record_defined)

lemma sample_envelope:
  "envelope sample_runtime [sample_reminder]
     = Inr (JsonText (Obj [(''version'', Num 1), (''data'', Arr [sample_record])]))"
  by (simp add: envelope_def sample_toJSON then_ok_def JSON_stringify_def
      to_json_sample_record sample_record_defined)

lemma sample_add:
  "apply_mutation sample_runtime (Add ''reminder_1'' (Inst sample_reminder))
     (sample_manager, sample_store)
   = (sample_manager\<lparr> reminders := [sample_reminder] \<rparr>,
      ReminderManager_save sample_runtime (sample_manager\<lparr> reminders := [sample_reminder] \<rparr>)
        sample_store)"
  by (simp add: ReminderManager_add_def entity_of_def sample_manager_def Let_def)

lemma sample_manager_key: "storageKey sample_manager = ''reminders''"
  by (simp add: sample_manager_def)

lemma sample_remove_missing:
  "apply_mutation sample_runtime (Remove (Str ''reminder_9'')) (sample_manager, sample_store)
   = (sample_manager, sample_store)"
  by (simp add: ReminderManager_remove_def sample_manager_def)

text \<open>
  Claim C1, as stated, fails.  After \<open>add\<close> of one entity to an empty manager, the value
  stored under the manager's key is the bare array of the entity's record.  The version-1
  envelope of the same entity is another value.
\<close>

theorem manager_add_stores_bare_array:
  "items (snd (apply_mutation sample_runtime (Add ''reminder_1'' (Inst sample_reminder))
       (sample_manager, sample_store))) ''reminders''
     = Some (JsonText (Arr [sample_record]))
   \<and> reminders (fst (apply_mutation sample_runtime (Add ''reminder_1'' (Inst sample_reminder))
       (sample_manager, sample_store))) = [sample_reminder]
   \<and> envelope sample_runtime [sample_reminder]
       = Inr (JsonText (Obj [(''version'', Num 1), (''data'', Arr [sample_record])]))"
proof -
  have "bare_array sample_runtime
      (reminders (sample_manager\<lparr> reminders := [sample_reminder] \<rparr>))
      = Inr (JsonText (Arr [sample_record]))"
    by (simp add: sample_bare_array)
  then have "items (ReminderManager_save sample_runtime
      (sample_manager\<lparr> reminders := [sample_reminder] \<rparr>) sample_store) ''reminders''
      = Some (JsonText (Arr [sample_record]))"
    using save_writes[of sample_runtime "sample_manager\<lparr> reminders := [sample_reminder] \<rparr>"
        "JsonText (Arr [sample_record])" sample_store]
    by (simp add: sample_store_simps sample_manager_key)
  then show ?thesis unfolding sample_add by (simp add: sample_envelope)
qed

text \<open>
  Claim C1, amended.  The manager does not go through the storage layer: its \<open>save\<close>
  writes to the key-value store directly, under the manager's own storage key, the bare
  array of the serialised entity records, which is the legacy format and not the version-1
  envelope.  Every mutation keeps the storage key.  Every mutation that gets as far as
  \<open>save\<close> (an \<open>add\<close> whose argument is accepted, an \<open>addMultiple\<close> whose first element
  is, a \<open>remove\<close> or \<open>update\<close> that finds the identifier and whose entity update does not
  throw, an \<open>import\<close> whose text decodes, and every \<open>removeCompleted\<close> and \<open>clear\<close>),
  when the entities serialise and the store accepts the write, leaves under that key the
  bare array of exactly the entities held in memory afterwards.  A mutation that does not
  get as far as \<open>save\<close> leaves the store as it was.
\<close>

theorem manager_mutation_persists_bare_array:
  assumes "apply_mutation rt mu (m, ls) = (m', ls')"
  shows "storageKey m' = storageKey m
     \<and> (\<not> reaches_save rt mu m \<longrightarrow> ls' = ls)
     \<and> (reaches_save rt mu m \<and> bare_array rt (reminders m') = Inr t
          \<and> present ls \<and> accepts ls (storageKey m) t
        \<longrightarrow> items ls' (storageKey m) = Some t \<and> envelope rt (reminders m') \<noteq> Inr t)"
proof (intro conjI impI)
  show "storageKey m' = storageKey m"
    using mutation_keeps_key[of rt mu m ls] assms by simp
next
  assume "\<not> reaches_save rt mu m"
  then show "ls' = ls" using mutation_without_save[of rt mu m ls] assms by simp
next
  assume a: "reaches_save rt mu m \<and> bare_array rt (reminders m') = Inr t
      \<and> present ls \<and> accepts ls (storageKey m) t"
  then have reach: "reaches_save rt mu m" and bare: "bare_array rt (reminders m') = Inr t"
    and pres: "present ls" and acc: "accepts ls (storageKey m) t"
    by simp_all
  from mutation_ends_in_save[OF reach, of ls] assms obtain ls0 where
    ls0: "present ls0 = present ls" "accepts ls0 = accepts ls"
      "storageKey m' = storageKey m" "ls' = ReminderManager_save rt m' ls0"
    by auto
  have "items (ReminderManager_save rt m' ls0) (storageKey m') = Some t"
    using bare pres acc ls0 by (intro save_writes) simp_all
  then show "items ls' (storageKey m) = Some t" using ls0 by simp
next
  assume a: "reaches_save rt mu m \<and> bare_array rt (reminders m') = Inr t
      \<and> present ls \<and> accepts ls (storageKey m) t"
  then show "envelope rt (reminders m') \<noteq> Inr t" using bare_is_not_envelope by blast
qed

theorem manager_mutation_persists_bare_array_witness:
  "(items (ReminderManager_save sample_runtime
         (sample_manager\<lparr> reminders := [sample_reminder] \<rparr>) sample_store)
       (storageKey sample_manager) = Some (JsonText (Arr [sample_record]))
    \<and> envelope sample_runtime (reminders (sample_manager\<lparr> reminders := [sample_reminder] \<rparr>))
       \<noteq> Inr (JsonText (Arr [sample_record])))
   \<and> snd (apply_mutation sample_runtime (Remove (Str ''reminder_9''))
        (sample_manager, sample_store)) = sample_store"
proof -
  have reach: "reaches_save sample_runtime (Add ''reminder_1'' (Inst sample_reminder))
      sample_manager"
    by (simp add: entity_of_def succeeds_def)
  have bare: "bare_array sample_runtime
      (reminders (sample_manager\<lparr> reminders := [sample_reminder] \<rparr>))
      = Inr (JsonText (Arr [sample_record]))"
    by (simp add: sample_bare_array)
  have missing: "\<not> reaches_save sample_runtime (Remove (Str ''reminder_9'')) sample_manager"
    by (simp add: sample_manager_def)
  have saved: "items (ReminderManager_save sample_runtime
         (sample_manager\<lparr> reminders := [sample_reminder] \<rparr>) sample_store)
       (storageKey sample_manager) = Some (JsonText (Arr [sample_record]))
    \<and> envelope sample_runtime (reminders (sample_manager\<lparr> reminders := [sample_reminder] \<rparr>))
       \<noteq> Inr (JsonText (Arr [sample_record]))"
    using manager_mutation_persists_bare_array[OF sample_add, where t = "JsonText (Arr [sample_record])"]
      reach bare sample_store_simps(1) sample_store_simps(2)
    by blast
  have kept: "snd (apply_mutation sample_runtime (Remove (Str ''reminder_9''))
        (sample_manager, sample_store)) = sample_store"
    using manager_mutation_persists_bare_array[OF sample_remove_missing, where t = "JsonText (Arr [sample_record])"] missing
    unfolding sample_remove_missing by simp
  from saved kept show ?thesis by (rule conjI)
qed

end
